theory Spec2Isabelle
  imports Main
begin

text \<open>
  A model of the voice assistant pipeline of the repository: the conversation adapters
  with the decoder of the event stream (\<open>llm_providers.py\<close>), the speech synthesis adapter
  (\<open>speech_to_text/yarngpt_tts.py\<close>), the media collector (\<open>speech_to_text/collector.py\<close>)
  and the processor (\<open>speech_to_text/processor.py\<close>). Functions keep the names of the
  source. A function that mutates its argument or the outside returns the new state with
  its outcome, and an exception is the value \<open>Inl e\<close>.
\<close>

section \<open>Text\<close>

text \<open>
  A Python \<open>str\<close> is modelled as a \<^typ>\<open>string\<close>: one \<^typ>\<open>char\<close> per character, the
  character with code \<open>n\<close> standing for the code point \<open>U+00n\<close>, so that the strings of
  the model are the Python strings over the code points 0 to 255. The operations below
  follow \<open>str.strip\<close>, \<open>str.lower\<close>, \<open>str.title\<close>, \<open>str.startswith\<close> and \<open>str.endswith\<close>
  on all of these. The title case of three of the characters lies beyond code point 255
  or has two characters, so \<open>title\<close> returns a list of code points.
\<close>

definition is_space :: "char \<Rightarrow> bool" where
  \<comment> \<open>\<open>str.isspace\<close>: TAB, LF, VT, FF, CR, FS, GS, RS, US, the space, NEL (133) and the
      no-break space (160).\<close>
  "is_space c =
     (let n = (of_char c :: nat)
      in (9 \<le> n \<and> n \<le> 13) \<or> (28 \<le> n \<and> n \<le> 32) \<or> n = 133 \<or> n = 160)"

definition strip :: "string \<Rightarrow> string" where
  \<comment> \<open>\<open>s.strip()\<close>: whitespace removed at both ends.\<close>
  "strip s = rev (dropWhile is_space (rev (dropWhile is_space s)))"

definition to_lower :: "char \<Rightarrow> char" where
  \<comment> \<open>the lower case of a character: A to Z, and the upper-case letters 192 to 222 of
      Latin-1 except the multiplication sign (215), move up by 32\<close>
  "to_lower c =
     (let n = (of_char c :: nat)
      in if (65 \<le> n \<and> n \<le> 90) \<or> (192 \<le> n \<and> n \<le> 214) \<or> (216 \<le> n \<and> n \<le> 222)
         then char_of (n + 32) else c)"

definition lower :: "string \<Rightarrow> string" where
  \<comment> \<open>\<open>s.lower()\<close>\<close>
  "lower s = map to_lower s"

definition is_cased :: "char \<Rightarrow> bool" where
  \<comment> \<open>the cased characters: the letters of ASCII and of Latin-1 (not the signs 215 and
      247), the ordinal indicators (170, 186) and the micro sign (181)\<close>
  "is_cased c =
     (let n = (of_char c :: nat)
      in (65 \<le> n \<and> n \<le> 90) \<or> (97 \<le> n \<and> n \<le> 122) \<or> n = 170 \<or> n = 181 \<or> n = 186
         \<or> (192 \<le> n \<and> n \<le> 214) \<or> (216 \<le> n \<and> n \<le> 246) \<or> (248 \<le> n \<and> n \<le> 255))"

definition title_char :: "char \<Rightarrow> nat list" where
  \<comment> \<open>the title case of a character, as code points: the lower-case letters move down by
      32, except the sharp s (223, to \<open>Ss\<close>), the y with diaeresis (255, to U+0178) and
      the micro sign (181, to U+039C)\<close>
  "title_char c =
     (let n = (of_char c :: nat)
      in if (97 \<le> n \<and> n \<le> 122) \<or> (224 \<le> n \<and> n \<le> 246) \<or> (248 \<le> n \<and> n \<le> 254)
         then [n - 32]
         else if n = 223 then [83, 115]
         else if n = 255 then [376]
         else if n = 181 then [924]
         else [n])"

fun title_from :: "bool \<Rightarrow> string \<Rightarrow> nat list" where
  \<comment> \<open>The loop of \<open>str.title\<close>: a character after a cased character is put in lower case,
      any other in title case; the flag says whether the previous character was cased.\<close>
  "title_from previous_is_cased [] = []"
| "title_from previous_is_cased (c # cs) =
     (if previous_is_cased then [of_char (to_lower c)] else title_char c)
       @ title_from (is_cased c) cs"

definition title :: "string \<Rightarrow> nat list" where
  \<comment> \<open>\<open>s.title()\<close>, as code points\<close>
  "title s = title_from False s"

definition points :: "string \<Rightarrow> nat list" where
  \<comment> \<open>the code points of a string\<close>
  "points s = map of_char s"

definition startswith :: "string \<Rightarrow> string \<Rightarrow> bool" where
  \<comment> \<open>\<open>s.startswith(p)\<close>\<close>
  "startswith s p = (take (length p) s = p)"

definition endswith :: "string \<Rightarrow> string \<Rightarrow> bool" where
  \<comment> \<open>\<open>s.endswith(p)\<close>\<close>
  "endswith s p = (length p \<le> length s \<and> drop (length s - length p) s = p)"
section \<open>Errors\<close>

text \<open>
  Every exception the modelled code can raise is a value of one type. The source raises
  \<open>ValueError\<close>, \<open>RuntimeError\<close> and \<open>FileNotFoundError\<close> with a message; the
  constructors carry the data of the message and are named after the failure:
  \<^item> \<open>EmptyResponse\<close>: \<open>RuntimeError("Monei API returned an empty response")\<close>;
  \<^item> \<open>TextTooLong n\<close>: \<open>ValueError("Text too long (n chars). Max is 2000 characters.")\<close>;
  \<^item> \<open>UnknownVoice v names\<close>: \<open>ValueError("Unknown voice 'v'. Available: names")\<close>, with
    the code points of \<open>v\<close>;
  \<^item> \<open>InvalidFormat f\<close>: \<open>ValueError("Invalid format 'f'. Use: mp3, wav, opus, flac")\<close>;
  \<^item> \<open>MissingApiKey\<close>: \<open>ValueError("YARNGPT_API_KEY environment variable not set. ...")\<close>;
  \<^item> \<open>SynthesisFailed status body\<close>: \<open>RuntimeError("YarnGPT API error (HTTP status): body")\<close>;
  \<^item> \<open>FileNotFound p\<close>: \<open>FileNotFoundError\<close> for the path \<open>p\<close>;
  \<^item> \<open>UnsupportedFormat s\<close>: \<open>ValueError("Unsupported format: s. ...")\<close> of the collector and
    \<open>ValueError("Unsupported file format: s")\<close> of the processor;
  \<^item> \<open>ImportError m\<close>: an optional package \<open>m\<close> is not installed;
  \<^item> \<open>HTTPError status\<close>: raised by \<open>raise_for_status\<close>;
  \<^item> \<open>JSONDecodeError\<close>, \<open>AttributeError\<close>, \<open>TypeError\<close>, \<open>IndexError\<close>: raised by the
    interpreter or the JSON library on malformed data;
  \<^item> \<open>SameFileError\<close>, \<open>IsADirectoryError\<close>, \<open>FileExistsError\<close>, \<open>NotADirectoryError\<close>:
    raised by the file operations of the standard library;
  \<^item> \<open>BackendError m\<close>: any exception raised inside an external service or tool.
\<close>

datatype error =
    EmptyResponse
  | TextTooLong nat
  | UnknownVoice "nat list" "string list"
  | InvalidFormat string
  | MissingApiKey
  | SynthesisFailed nat string
  | FileNotFound string
  | UnsupportedFormat string
  | ImportError string
  | HTTPError nat
  | JSONDecodeError
  | AttributeError
  | TypeError
  | IndexError
  | SameFileError
  | IsADirectoryError
  | FileExistsError
  | NotADirectoryError
  | BackendError string

section \<open>Conversation adapters (llm_providers.py)\<close>

subsection \<open>The event stream decoder\<close>

text \<open>
  The value \<open>json.loads\<close> returns. A JSON object is an association list; \<open>dict.get\<close> is
  \<^const>\<open>map_of\<close>.
\<close>

datatype json =
    JNull
  | JBool bool
  | JNum int
  | JStr string
  | JArr "json list"
  | JObj "(string \<times> json) list"

text \<open>
  \<open>json.loads\<close> is a parameter of the model: \<open>loads s = None\<close> when the library raises
  \<open>JSONDecodeError\<close> on \<open>s\<close>.
\<close>

type_synonym json_loads = "string \<Rightarrow> json option"

text \<open>
  What a line of the stream is to the read loop of \<open>_parse_sse\<close>: the guards of the loop
  body, in the order of the source. \<open>payload.get\<close> needs a JSON object; \<open>.strip()\<close> and
  \<open>+=\<close> need a string.
\<close>

datatype sse_event =
    Ignored           \<comment> \<open>\<open>continue\<close>, or an event that is neither "complete" nor "token"\<close>
  | Token string      \<comment> \<open>\<open>payload.get("event") == "token"\<close>, with \<open>payload.get("data", "")\<close>\<close>
  | Complete string   \<comment> \<open>\<open>payload.get("event") == "complete"\<close>, with \<open>payload.get("data", "")\<close>\<close>
  | Malformed error   \<comment> \<open>the iteration raises\<close>

definition get_data :: "(string \<times> json) list \<Rightarrow> json" where
  \<comment> \<open>\<open>payload.get("data", "")\<close>\<close>
  "get_data kvs = (case map_of kvs ''data'' of None \<Rightarrow> JStr [] | Some v \<Rightarrow> v)"

definition decode_line :: "json_loads \<Rightarrow> string \<Rightarrow> sse_event" where
  "decode_line loads line =
     (if line = [] \<or> \<not> startswith line ''data: '' then Ignored
      else case loads (drop (length ''data: '') line) of
          None \<Rightarrow> Malformed JSONDecodeError
        | Some (JObj kvs) \<Rightarrow>
            (if map_of kvs ''event'' = Some (JStr ''complete'')
             then (case get_data kvs of JStr d \<Rightarrow> Complete d | _ \<Rightarrow> Malformed AttributeError)
             else if map_of kvs ''event'' = Some (JStr ''token'')
             then (case get_data kvs of JStr d \<Rightarrow> Token d | _ \<Rightarrow> Malformed TypeError)
             else Ignored)
        | Some _ \<Rightarrow> Malformed AttributeError)"

fun sse_loop :: "json_loads \<Rightarrow> string list \<Rightarrow> string \<Rightarrow> error + string" where
  \<comment> \<open>The \<open>for\<close> loop over \<open>resp.iter_lines\<close>; the third argument is \<open>full_text\<close>.\<close>
  "sse_loop loads [] full_text = Inr full_text"
| "sse_loop loads (line # rest) full_text =
     (case decode_line loads line of
        Ignored \<Rightarrow> sse_loop loads rest full_text
      | Token d \<Rightarrow> sse_loop loads rest (full_text @ d)
      | Complete d \<Rightarrow> Inr (strip d)
      | Malformed e \<Rightarrow> Inl e)"

definition parse_sse :: "json_loads \<Rightarrow> string list \<Rightarrow> error + string" where
  \<comment> \<open>\<open>MoneiProvider._parse_sse\<close>\<close>
  "parse_sse loads lines =
     (case sse_loop loads lines [] of
        Inl e \<Rightarrow> Inl e
      | Inr full_text \<Rightarrow> if full_text = [] then Inl EmptyResponse else Inr full_text)"

subsection \<open>History and the two providers\<close>

datatype role = System | User | Assistant

record message =
  role :: role
  content :: string

definition SYSTEM_PROMPT :: string where
  "SYSTEM_PROMPT = ''You are Monei, a friendly and helpful AI voice assistant. Keep responses concise (1-3 sentences) since they will be spoken aloud. Be warm, natural, and conversational.''"

definition add_user_turn :: "string \<Rightarrow> message list \<Rightarrow> message list" where
  \<comment> \<open>\<open>chat_history.append({"role": "user", ...}); if len(chat_history) > 20:
      chat_history[:] = chat_history[-20:]\<close>, the first statements of both \<open>ask\<close> methods.\<close>
  "add_user_turn user_text chat_history =
     (let h = chat_history @ [\<lparr>role = User, content = user_text\<rparr>]
      in if length h > 20 then drop (length h - 20) h else h)"

text \<open>
  What a call sends to the remote service: the message list of the direct-completion
  request, or the \<open>message\<close> field of the streaming request.
\<close>

datatype request = ChatCompletion "message list" | StreamMessage string

text \<open>
  The Groq client is a parameter: given the message list it returns the contents of the
  choices of the completion (\<open>None\<close> for a choice without content, which
  \<open>content or ""\<close> turns into the empty string) or raises (\<open>Inl\<close> with the message of the
  exception, which the caller sees as \<open>BackendError\<close>).
  \<open>ask\<close> mutates the caller's list, so the model returns the new history; after an
  exception the history keeps the user turn that was already appended. Both \<open>ask\<close>
  functions return the new history and the request sent, with the outcome.
\<close>

definition groq_ask ::
  "(message list \<Rightarrow> string + string option list) \<Rightarrow> string \<Rightarrow> message list
     \<Rightarrow> (message list \<times> request) \<times> (error + string)" where
  "groq_ask create user_text chat_history =
     (let h = add_user_turn user_text chat_history;
          messages = \<lparr>role = System, content = SYSTEM_PROMPT\<rparr> # h
      in case create messages of
           Inl m \<Rightarrow> ((h, ChatCompletion messages), Inl (BackendError m))
         | Inr [] \<Rightarrow> ((h, ChatCompletion messages), Inl IndexError)
         | Inr (c # _) \<Rightarrow>
             (let reply = strip (case c of None \<Rightarrow> [] | Some s \<Rightarrow> s)
              in ((h @ [\<lparr>role = Assistant, content = reply\<rparr>], ChatCompletion messages),
                  Inr reply)))"

text \<open>
  The HTTP service of the streaming provider is a parameter: given the \<open>message\<close> field
  of the request body, which is the user text and nothing of the history, it raises
  (connection error, timeout) or answers with a status code and the lines of the body.
  \<open>raise_for_status\<close> raises for the status codes 400 to 599.
\<close>

record http_stream =
  status_code :: nat
  iter_lines :: "string list"

definition monei_ask ::
  "json_loads \<Rightarrow> (string \<Rightarrow> string + http_stream) \<Rightarrow> string \<Rightarrow> message list
     \<Rightarrow> (message list \<times> request) \<times> (error + string)" where
  "monei_ask loads post user_text chat_history =
     (let h = add_user_turn user_text chat_history
      in case post user_text of
           Inl m \<Rightarrow> ((h, StreamMessage user_text), Inl (BackendError m))
         | Inr resp \<Rightarrow>
             if 400 \<le> status_code resp \<and> status_code resp < 600
             then ((h, StreamMessage user_text), Inl (HTTPError (status_code resp)))
             else (case parse_sse loads (iter_lines resp) of
                     Inl e \<Rightarrow> ((h, StreamMessage user_text), Inl e)
                   | Inr reply \<Rightarrow>
                       ((h @ [\<lparr>role = Assistant, content = reply\<rparr>], StreamMessage user_text),
                        Inr reply)))"

text \<open>
  A call of \<open>ask\<close> on one of the two providers, with the behaviour of the remote service
  during that call. The server keeps one history for the whole process and passes it to
  every call; an exception of a call is reported to the client and the history stays as the
  call left it.
\<close>

datatype ask_call =
    GroqCall "message list \<Rightarrow> string + string option list" string
  | MoneiCall json_loads "string \<Rightarrow> string + http_stream" string

fun user_text_of :: "ask_call \<Rightarrow> string" where
  "user_text_of (GroqCall create user_text) = user_text"
| "user_text_of (MoneiCall loads post user_text) = user_text"

fun ask :: "ask_call \<Rightarrow> message list \<Rightarrow> (message list \<times> request) \<times> (error + string)" where
  "ask (GroqCall create user_text) chat_history = groq_ask create user_text chat_history"
| "ask (MoneiCall loads post user_text) chat_history = monei_ask loads post user_text chat_history"

fun ask_all :: "ask_call list \<Rightarrow> message list \<Rightarrow> message list" where
  "ask_all [] chat_history = chat_history"
| "ask_all (c # cs) chat_history = ask_all cs (fst (fst (ask c chat_history)))"

subsection \<open>Vocabulary for the statements about the stream\<close>

fun tokens_of :: "sse_event list \<Rightarrow> string" where
  \<comment> \<open>the payloads of the token events, concatenated in order\<close>
  "tokens_of [] = []"
| "tokens_of (Token d # es) = d @ tokens_of es"
| "tokens_of (e # es) = tokens_of es"

fun only_tokens :: "sse_event list \<Rightarrow> bool" where
  \<comment> \<open>token events and ignored lines only: no complete event, nothing malformed\<close>
  "only_tokens [] = True"
| "only_tokens (Token d # es) = only_tokens es"
| "only_tokens (Ignored # es) = only_tokens es"
| "only_tokens (e # es) = False"

text \<open>Sample behaviours of the collaborators, for the concrete runs below.\<close>

definition example_loads :: json_loads where
  \<open>example_loads s =
     (if s = ''{"event":"token","data":"Hel"}''
      then Some (JObj [(''event'', JStr ''token''), (''data'', JStr ''Hel'')])
      else if s = ''{"event":"token","data":"lo"}''
      then Some (JObj [(''event'', JStr ''token''), (''data'', JStr ''lo'')])
      else if s = ''{"event":"token","data":""}''
      then Some (JObj [(''event'', JStr ''token''), (''data'', JStr [])])
      else if s = ''{"event":"complete","data":"Hello!"}''
      then Some (JObj [(''event'', JStr ''complete''), (''data'', JStr ''Hello!'')])
      else if s = ''{"event":"complete","data":" Hello! "}''
      then Some (JObj [(''event'', JStr ''complete''), (''data'', JStr '' Hello! '')])
      else if s = ''{"event":"complete","data":"  "}''
      then Some (JObj [(''event'', JStr ''complete''), (''data'', JStr ''  '')])
      else if s = ''{"event":"complete","data":"'' @ [CHR 0x5C] @ ''u00a0"}''
      then Some (JObj [(''event'', JStr ''complete''), (''data'', JStr [CHR 0xA0])])
      else None)\<close>

definition reply_ok :: "message list \<Rightarrow> string + string option list" where
  "reply_ok messages = Inr [Some ''ok'']"

definition token_Hel :: string where
  \<open>token_Hel = ''data: {"event":"token","data":"Hel"}''\<close>

definition token_lo :: string where
  \<open>token_lo = ''data: {"event":"token","data":"lo"}''\<close>

definition token_empty :: string where
  \<open>token_empty = ''data: {"event":"token","data":""}''\<close>

definition complete_Hello :: string where
  \<open>complete_Hello = ''data: {"event":"complete","data":"Hello!"}''\<close>

definition complete_padded :: string where
  \<open>complete_padded = ''data: {"event":"complete","data":" Hello! "}''\<close>

definition complete_blank :: string where
  \<open>complete_blank = ''data: {"event":"complete","data":"  "}''\<close>

definition complete_nbsp :: string where
  \<comment> \<open>the payload is the JSON escape of the no-break space, a backslash followed by
      \<open>u00a0\<close>\<close>
  \<open>complete_nbsp = ''data: {"event":"complete","data":"'' @ [CHR 0x5C] @ ''u00a0"}''\<close>

definition stream_hello :: "string \<Rightarrow> string + http_stream" where
  "stream_hello message =
     Inr \<lparr>status_code = 200,
          iter_lines = [token_Hel, [], token_lo, [], complete_Hello]\<rparr>"

definition twenty_turns :: "message list" where
  "twenty_turns = replicate 20 \<lparr>role = User, content = ''x''\<rparr>"

section \<open>Speech synthesis adapter (speech_to_text/yarngpt_tts.py)\<close>

definition YARNGPT_VOICES :: "(string \<times> string) list" where
  \<comment> \<open>the dictionary of voices, in the order of the source\<close>
  "YARNGPT_VOICES =
     [(''Idera'', ''Melodic, gentle''),
      (''Emma'', ''Authoritative, deep''),
      (''Zainab'', ''Soothing, gentle''),
      (''Osagie'', ''Smooth, calm''),
      (''Jude'', ''Warm, confident''),
      (''Chinenye'', ''Engaging, warm''),
      (''Tayo'', ''Upbeat, energetic''),
      (''Regina'', ''Mature, warm''),
      (''Adaora'', ''Warm, Engaging''),
      (''Umar'', ''Calm, smooth''),
      (''Mary'', ''Energetic, youthful''),
      (''Nonso'', ''Bold, resonant''),
      (''Remi'', ''Melodious, warm''),
      (''Adam'', ''Deep, Clear'')]"

definition list_voice_names :: "string list" where
  \<comment> \<open>\<open>list(YARNGPT_VOICES.keys())\<close>\<close>
  "list_voice_names = map fst YARNGPT_VOICES"

definition get_api_key :: "string option \<Rightarrow> error + string" where
  \<comment> \<open>\<open>_get_api_key\<close>; the argument is the environment variable \<open>YARNGPT_API_KEY\<close>.\<close>
  "get_api_key env_key =
     (let key = (case env_key of None \<Rightarrow> [] | Some k \<Rightarrow> k)
      in if key = [] then Inl MissingApiKey else Inr key)"

text \<open>
  The request body (the voice as code points, the form \<open>title\<close> gives it), the answer
  of the service, and what a call does to the outside: the requests it sends (with the
  bearer key) and the files it writes. The service is a
  parameter; it answers or raises. Writing the file is taken to succeed.
\<close>

record tts_payload =
  p_text :: string
  p_voice :: "nat list"
  p_response_format :: string

record tts_response =
  r_status_code :: nat
  r_content :: string
  r_text :: string

record tts_effects =
  sent :: "(string \<times> tts_payload) list"
  saved :: "(string \<times> string) list"

definition synthesize_speech ::
  "string option \<Rightarrow> (string \<Rightarrow> tts_payload \<Rightarrow> string + tts_response)
     \<Rightarrow> string \<Rightarrow> string \<Rightarrow> string \<Rightarrow> string \<Rightarrow> string option
     \<Rightarrow> tts_effects \<times> (error + string)" where
  "synthesize_speech env_key post text output_path voice response_format api_key =
     (if length text > 2000 then (\<lparr>sent = [], saved = []\<rparr>, Inl (TextTooLong (length text)))
      else
        let voice = title (strip voice) in
        if voice \<notin> set (map points (map fst YARNGPT_VOICES))
        then (\<lparr>sent = [], saved = []\<rparr>, Inl (UnknownVoice voice (map fst YARNGPT_VOICES)))
        else if response_format \<notin> set [''mp3'', ''wav'', ''opus'', ''flac'']
        then (\<lparr>sent = [], saved = []\<rparr>, Inl (InvalidFormat response_format))
        else
          case (case api_key of
                  None \<Rightarrow> get_api_key env_key
                | Some k \<Rightarrow> if k = [] then get_api_key env_key else Inr k) of
            Inl e \<Rightarrow> (\<lparr>sent = [], saved = []\<rparr>, Inl e)
          | Inr key \<Rightarrow>
              (let payload = \<lparr>p_text = text, p_voice = voice, p_response_format = response_format\<rparr>
               in (case post key payload of
                     Inl m \<Rightarrow> (\<lparr>sent = [(key, payload)], saved = []\<rparr>, Inl (BackendError m))
                   | Inr response \<Rightarrow>
                       if r_status_code response = 200
                       then (\<lparr>sent = [(key, payload)],
                              saved = [(output_path, r_content response)]\<rparr>,
                             Inr output_path)
                       else (\<lparr>sent = [(key, payload)], saved = []\<rparr>,
                             Inl (SynthesisFailed (r_status_code response)
                                    (take 300 (r_text response)))))))"

definition ascii_upper :: "char \<Rightarrow> bool" where
  "ascii_upper c = (let n = (of_char c :: nat) in 65 \<le> n \<and> n \<le> 90)"

definition ascii_lower :: "char \<Rightarrow> bool" where
  "ascii_lower c = (let n = (of_char c :: nat) in 97 \<le> n \<and> n \<le> 122)"

definition capitalized :: "string \<Rightarrow> bool" where
  \<comment> \<open>one word of ASCII letters, the first in upper case and the others in lower case\<close>
  "capitalized v = (v \<noteq> [] \<and> ascii_upper (hd v) \<and> list_all ascii_lower (tl v))"

definition tts_ok :: "string \<Rightarrow> tts_payload \<Rightarrow> string + tts_response" where
  "tts_ok key payload = Inr \<lparr>r_status_code = 200, r_content = ''ID3'', r_text = ''ID3''\<rparr>"

definition idera_padded :: string where
  \<comment> \<open>\<open>idera\<close> between a no-break space and a next-line character\<close>
  "idera_padded = [CHR 0xA0] @ ''idera'' @ [CHR 0x85]"

definition jose :: string where
  \<comment> \<open>\<open>jos\<close> followed by e with acute accent, a lower-case letter outside ASCII\<close>
  "jose = ''jos'' @ [CHR 0xE9]"

section \<open>Paths\<close>

text \<open>
  Paths are strings, read the way \<open>pathlib\<close> reads them on a POSIX system: a root (none,
  one slash, or two slashes when the string starts with exactly two), and the components
  between the slashes, with the empty components and the components \<open>.\<close> dropped.
  \<open>pathlib\<close> does not look at the file system for any of this.
\<close>

fun split_on :: "char \<Rightarrow> string \<Rightarrow> string list" where
  \<comment> \<open>\<open>s.split(c)\<close>\<close>
  "split_on c [] = [[]]"
| "split_on c (x # xs) =
     (if x = c then [] # split_on c xs
      else (case split_on c xs of [] \<Rightarrow> [[x]] | p # ps \<Rightarrow> (x # p) # ps))"

type_synonym pure_path = "string \<times> string list"

definition path_root :: "string \<Rightarrow> string" where
  "path_root s =
     (if startswith s ''//'' \<and> \<not> startswith s ''///'' then ''//''
      else if startswith s ''/'' then ''/'' else [])"

definition Path :: "string \<Rightarrow> pure_path" where
  "Path s = (path_root s, filter (\<lambda>p. p \<noteq> [] \<and> p \<noteq> ''.'') (split_on CHR ''/'' s))"

fun join_parts :: "string list \<Rightarrow> string" where
  "join_parts [] = []"
| "join_parts [p] = p"
| "join_parts (p # ps) = p @ ''/'' @ join_parts ps"

definition path_str :: "pure_path \<Rightarrow> string" where
  \<comment> \<open>\<open>str(path)\<close>\<close>
  "path_str p = (if fst p = [] \<and> snd p = [] then ''.'' else fst p @ join_parts (snd p))"

definition path_name :: "pure_path \<Rightarrow> string" where
  \<comment> \<open>\<open>path.name\<close>: the last component, empty when there is none\<close>
  "path_name p = (if snd p = [] then [] else last (snd p))"

definition rfind :: "char \<Rightarrow> string \<Rightarrow> nat option" where
  \<comment> \<open>\<open>s.rfind(c)\<close>; \<open>None\<close> for -1\<close>
  "rfind c s =
     (if c \<in> set s then Some (length s - 1 - length (takeWhile (\<lambda>x. x \<noteq> c) (rev s))) else None)"

definition path_suffix :: "pure_path \<Rightarrow> string" where
  \<comment> \<open>\<open>path.suffix\<close>: from the last dot of the name, when that dot is neither the first nor
      the last character of the name\<close>
  "path_suffix p =
     (let name = path_name p
      in case rfind CHR ''.'' name of
           None \<Rightarrow> []
         | Some i \<Rightarrow> if 0 < i \<and> i < length name - 1 then drop i name else [])"

definition path_stem :: "pure_path \<Rightarrow> string" where
  \<comment> \<open>\<open>path.stem\<close>: the name without the suffix\<close>
  "path_stem p =
     (let name = path_name p
      in case rfind CHR ''.'' name of
           None \<Rightarrow> name
         | Some i \<Rightarrow> if 0 < i \<and> i < length name - 1 then take i name else name)"

definition path_join :: "pure_path \<Rightarrow> string \<Rightarrow> pure_path" where
  \<comment> \<open>\<open>path / s\<close>: an \<open>s\<close> with a root replaces the path\<close>
  "path_join p s = (if fst (Path s) \<noteq> [] then Path s else (fst p, snd p @ snd (Path s)))"

section \<open>The operating system\<close>

text \<open>
  What the standard library does to the file system is not decided by the source: which
  spellings name the same file, what exists, what a copy refuses. These operations are
  parameters of the model. They act on a world of an unspecified type and return their
  answer, \<open>Inl\<close> of the exception when they raise, with the world they leave.
  \<^item> \<open>path_exists\<close> is \<open>os.path.exists\<close>;
  \<^item> \<open>mkdir_parents\<close> is \<open>Path.mkdir(parents=True, exist_ok=True)\<close>;
  \<^item> \<open>shutil_copy2\<close> is \<open>shutil.copy2(src, dst)\<close>, which answers with the path of the
    file it has written (\<open>dst\<close>, or the file of the source's name inside \<open>dst\<close> when
    \<open>dst\<close> is a directory);
  \<^item> \<open>read_bytes\<close> is the content of the regular file a path names; the source does not
    call it, the statements about the content of files do.
\<close>

record 'w os_ops =
  path_exists :: "string \<Rightarrow> 'w \<Rightarrow> bool"
  mkdir_parents :: "string \<Rightarrow> 'w \<Rightarrow> (error + unit) \<times> 'w"
  shutil_copy2 :: "string \<Rightarrow> string \<Rightarrow> 'w \<Rightarrow> (error + string) \<times> 'w"
  read_bytes :: "string \<Rightarrow> 'w \<Rightarrow> string option"


section \<open>Media collector (speech_to_text/collector.py)\<close>

definition AUDIO_EXTENSIONS :: "string list" where
  "AUDIO_EXTENSIONS = [''.wav'', ''.mp3'', ''.flac'', ''.ogg'', ''.m4a'', ''.aac'', ''.wma'']"

definition VIDEO_EXTENSIONS :: "string list" where
  "VIDEO_EXTENSIONS = [''.mp4'', ''.mkv'', ''.avi'', ''.mov'', ''.webm'', ''.flv'', ''.wmv'']"

definition ensure_dir :: "'w os_ops \<Rightarrow> string \<Rightarrow> 'w \<Rightarrow> (error + pure_path) \<times> 'w" where
  \<comment> \<open>\<open>p = Path(path); p.mkdir(parents=True, exist_ok=True); return p\<close>\<close>
  "ensure_dir os path w =
     (let p = Path path
      in case mkdir_parents os (path_str p) w of
           (Inl e, w') \<Rightarrow> (Inl e, w')
         | (Inr u, w') \<Rightarrow> (Inr p, w'))"

definition is_audio :: "string \<Rightarrow> bool" where
  "is_audio filepath = (lower (path_suffix (Path filepath)) \<in> set AUDIO_EXTENSIONS)"

definition is_video :: "string \<Rightarrow> bool" where
  "is_video filepath = (lower (path_suffix (Path filepath)) \<in> set VIDEO_EXTENSIONS)"

definition destination :: "string \<Rightarrow> string \<Rightarrow> pure_path" where
  \<comment> \<open>\<open>dest_dir / Path(filepath).name\<close>, with \<open>dest_dir = Path(output_dir)\<close>\<close>
  "destination output_dir filepath = path_join (Path output_dir) (path_name (Path filepath))"


text \<open>
  A sample operating system for the concrete runs: a world is the list of its regular
  files, each under the one spelling of its path, with its content. Directories are not
  recorded and making them always succeeds. A copy onto the same spelling is a copy of a
  file onto itself.
\<close>

type_synonym sample_world = "(string \<times> string) list"

definition sample_os :: "sample_world os_ops" where
  "sample_os =
     \<lparr>path_exists = (\<lambda>path w. map_of w path \<noteq> None),
      mkdir_parents = (\<lambda>path w. (Inr (), w)),
      shutil_copy2 =
        (\<lambda>src dst w.
           if src = dst then (Inl SameFileError, w)
           else (case map_of w src of
                   None \<Rightarrow> (Inl (FileNotFound src), w)
                 | Some b \<Rightarrow> (Inr dst, (dst, b) # w))),
      read_bytes = (\<lambda>path w. map_of w path)\<rparr>"

definition blocked_os :: "sample_world os_ops" where
  \<comment> \<open>the sample operating system with a regular file in the way of every directory\<close>
  "blocked_os = sample_os\<lparr>mkdir_parents := (\<lambda>path w. (Inl FileExistsError, w))\<rparr>"

definition sample_files :: sample_world where
  "sample_files = [(''media/talk.MP3'', ''ID3 talk''), (''media/notes.txt'', ''notes'')]"
section \<open>Audio normalizer and transcription (speech_to_text/processor.py)\<close>

text \<open>
  The processor reads and writes files and runs external tools: the conversion tool
  through \<open>subprocess.run\<close>, the audio extraction of \<open>moviepy\<close>, the recognition model of
  \<open>whisper\<close>. Like the operations of the operating system, every tool takes the world and
  returns it with its answer, \<open>Inl\<close> with the message of the exception when it raises;
  \<open>subprocess.run\<close> raises when the program cannot be started. \<open>_load_audio_as_numpy\<close> works on floating-point arrays and is a tool here: it
  answers with a waveform of an unspecified type. Timestamps are of an unspecified type as
  well; they are passed through.
\<close>

record completed_process =
  returncode :: int
  stderr :: string

record 't segment =
  seg_start :: 't
  seg_end :: 't
  seg_text :: string

record 't whisper_result =
  res_text :: string
  res_language :: "string option"
  res_segments :: "'t segment list option"

record 't transcription =
  tr_audio_path :: string
  tr_text :: string
  tr_language :: string
  tr_segments :: "'t segment list"

record ('w, 'v, 't) tools =
  tool_os :: "'w os_ops"
  which_ffmpeg :: "string option"
  imageio_ffmpeg :: "(string + string) option"
  run_process :: "string list \<Rightarrow> 'w \<Rightarrow> (string + completed_process) \<times> 'w"
  moviepy_installed :: bool
  write_audiofile :: "string \<Rightarrow> string \<Rightarrow> 'w \<Rightarrow> (string + unit) \<times> 'w"
  whisper_installed :: bool
  load_audio_as_numpy :: "string \<Rightarrow> 'w \<Rightarrow> (string + 'v) \<times> 'w"
  whisper_transcribe ::
    "string \<Rightarrow> 'v \<Rightarrow> string option \<Rightarrow> 'w \<Rightarrow> (string + 't whisper_result) \<times> 'w"

definition get_ffmpeg_path :: "('w, 'v, 't) tools \<Rightarrow> error + string" where
  \<comment> \<open>\<open>_get_ffmpeg_path\<close>: the system install, else the bundled binary of \<open>imageio_ffmpeg\<close>
      (\<open>None\<close> when the package is missing, \<open>Inl\<close> when it finds no binary and raises), else
      the bare name\<close>
  "get_ffmpeg_path T =
     (case which_ffmpeg T of
        Some p \<Rightarrow> Inr p
      | None \<Rightarrow>
          (case imageio_ffmpeg T of
             None \<Rightarrow> Inr ''ffmpeg''
           | Some (Inl m) \<Rightarrow> Inl (BackendError m)
           | Some (Inr p) \<Rightarrow> Inr p))"

definition basename :: "string \<Rightarrow> string" where
  \<comment> \<open>\<open>os.path.basename\<close>\<close>
  "basename s = (case rfind CHR ''/'' s of None \<Rightarrow> s | Some i \<Rightarrow> drop (Suc i) s)"

definition os_path_join :: "string \<Rightarrow> string \<Rightarrow> string" where
  \<comment> \<open>\<open>os.path.join(a, b)\<close> for a relative \<open>b\<close>\<close>
  "os_path_join a b = (if a = [] \<or> last a = CHR ''/'' then a @ b else a @ ''/'' @ b)"

definition converted_path :: "string \<Rightarrow> string" where
  \<comment> \<open>\<open>audio_path.rsplit(".", 1)[0] + "_converted.wav"\<close>\<close>
  "converted_path audio_path =
     (case rfind CHR ''.'' audio_path of None \<Rightarrow> audio_path | Some i \<Rightarrow> take i audio_path)
       @ ''_converted.wav''"

definition ffmpeg_command :: "string \<Rightarrow> string \<Rightarrow> string list" where
  "ffmpeg_command ffmpeg_path audio_path =
     [ffmpeg_path, ''-y'', ''-i'', audio_path, ''-ar'', ''16000'', ''-ac'', ''1'', ''-f'', ''wav'',
      converted_path audio_path]"

text \<open>
  What \<open>_ensure_wav\<close> does besides returning: the commands it runs and the lines it prints.
\<close>

record wav_effects =
  commands :: "string list list"
  printed :: "string list"

definition converting_line :: "string \<Rightarrow> string \<Rightarrow> string" where
  "converting_line audio_path ffmpeg_path =
     ''  [Converting] '' @ audio_path @ '' -> WAV (via '' @ basename ffmpeg_path @ '')''"

definition warning_line :: "completed_process \<Rightarrow> string" where
  "warning_line result = ''  [Warning] ffmpeg conversion failed: '' @ take 200 (stderr result)"

definition ensure_wav ::
  "('w, 'v, 't) tools \<Rightarrow> 'w \<Rightarrow> string \<Rightarrow> 'w \<times> wav_effects \<times> (error + string)" where
  "ensure_wav T w audio_path =
     (if endswith (lower audio_path) ''.wav''
      then (w, \<lparr>commands = [], printed = []\<rparr>, Inr audio_path)
      else case get_ffmpeg_path T of
             Inl e \<Rightarrow> (w, \<lparr>commands = [], printed = []\<rparr>, Inl e)
           | Inr ffmpeg_path \<Rightarrow>
               (let wav_path = converted_path audio_path;
                    cmd = ffmpeg_command ffmpeg_path audio_path
                in (case run_process T cmd w of
                      (Inl m, w') \<Rightarrow>
                        (w', \<lparr>commands = [cmd], printed = [converting_line audio_path ffmpeg_path]\<rparr>,
                         Inl (BackendError m))
                    | (Inr result, w') \<Rightarrow>
                        if returncode result \<noteq> 0
                        then (w', \<lparr>commands = [cmd],
                                   printed = [converting_line audio_path ffmpeg_path,
                                              warning_line result]\<rparr>,
                              Inr audio_path)
                        else (w', \<lparr>commands = [cmd],
                                   printed = [converting_line audio_path ffmpeg_path]\<rparr>,
                              Inr wav_path))))"

definition extract_audio_from_video ::
  "('w, 'v, 't) tools \<Rightarrow> 'w \<Rightarrow> string \<Rightarrow> string \<Rightarrow> 'w \<times> (error + string)" where
  "extract_audio_from_video T w video_path output_dir =
     (if \<not> moviepy_installed T then (w, Inl (ImportError ''moviepy''))
      else if \<not> path_exists (tool_os T) video_path w then (w, Inl (FileNotFound video_path))
      else case ensure_dir (tool_os T) output_dir w of
             (Inl e, w1) \<Rightarrow> (w1, Inl e)
           | (Inr dest_dir, w1) \<Rightarrow>
               (let audio_filename = path_stem (Path video_path) @ ''.wav'';
                    audio_path = path_str (path_join dest_dir audio_filename)
                in (case write_audiofile T video_path audio_path w1 of
                      (Inl m, w') \<Rightarrow> (w', Inl (BackendError m))
                    | (Inr u, w') \<Rightarrow> (w', Inr audio_path))))"

definition transcribe_audio ::
  "('w, 'v, 't) tools \<Rightarrow> 'w \<Rightarrow> string \<Rightarrow> string \<Rightarrow> string option
     \<Rightarrow> 'w \<times> (error + 't transcription)" where
  "transcribe_audio T w audio_path model_size language =
     (if \<not> whisper_installed T then (w, Inl (ImportError ''openai-whisper''))
      else if \<not> path_exists (tool_os T) audio_path w then (w, Inl (FileNotFound audio_path))
      else case ensure_wav T w audio_path of
             (w1, eff, Inl e) \<Rightarrow> (w1, Inl e)
           | (w1, eff, Inr wav_path) \<Rightarrow>
               (case load_audio_as_numpy T wav_path w1 of
                  (Inl m, w2) \<Rightarrow> (w2, Inl (BackendError m))
                | (Inr audio_array, w2) \<Rightarrow>
                    (case whisper_transcribe T model_size audio_array
                            (case language of None \<Rightarrow> None
                             | Some l \<Rightarrow> if l = [] then None else Some l) w2 of
                       (Inl m, w3) \<Rightarrow> (w3, Inl (BackendError m))
                     | (Inr result, w3) \<Rightarrow>
                         (w3, Inr \<lparr>tr_audio_path = audio_path,
                                   tr_text = strip (res_text result),
                                   tr_language = (case res_language result of
                                                    None \<Rightarrow> ''unknown'' | Some l \<Rightarrow> l),
                                   tr_segments =
                                     map (\<lambda>seg. seg\<lparr>seg_text := strip (seg_text seg)\<rparr>)
                                       (case res_segments result of
                                          None \<Rightarrow> [] | Some segs \<Rightarrow> segs)\<rparr>))))"

definition process_file ::
  "('w, 'v, 't) tools \<Rightarrow> 'w \<Rightarrow> string \<Rightarrow> string \<Rightarrow> string \<Rightarrow> string option
     \<Rightarrow> 'w \<times> (error + 't transcription)" where
  "process_file T w filepath output_dir model_size language =
     (let audio_dir = os_path_join output_dir ''extracted_audio''
      in if is_video filepath
         then (case extract_audio_from_video T w filepath audio_dir of
                 (w1, Inl e) \<Rightarrow> (w1, Inl e)
               | (w1, Inr audio_path) \<Rightarrow> transcribe_audio T w1 audio_path model_size language)
         else if is_audio filepath
         then transcribe_audio T w filepath model_size language
         else (w, Inl (UnsupportedFormat filepath)))"

text \<open>
  An entry of the list \<open>process_batch\<close> returns: a transcription, or the record
  \<open>{"audio_path": fp, "error": str(e)}\<close> written by the \<open>except Exception\<close> clause, which
  catches every exception of the type above.
\<close>

datatype 't batch_result = Transcribed "'t transcription" | Failed string error

fun process_batch ::
  "('w, 'v, 't) tools \<Rightarrow> 'w \<Rightarrow> string list \<Rightarrow> string \<Rightarrow> string \<Rightarrow> string option
     \<Rightarrow> 'w \<times> 't batch_result list" where
  "process_batch T w [] output_dir model_size language = (w, [])"
| "process_batch T w (fp # fps) output_dir model_size language =
     (case process_file T w fp output_dir model_size language of
        (w1, r) \<Rightarrow>
          (case process_batch T w1 fps output_dir model_size language of
             (w2, results) \<Rightarrow>
               (w2, (case r of Inr result \<Rightarrow> Transcribed result | Inl e \<Rightarrow> Failed fp e) # results)))"

text \<open>
  Sample tools on the sample operating system: the conversion tool exits with the given
  code, everything else works. In the second sample no conversion tool is installed and
  starting it fails. In the third the bundled binary of \<open>imageio_ffmpeg\<close> is asked for and
  that package raises.
\<close>

definition example_tools :: "int \<Rightarrow> (sample_world, nat list, nat) tools" where
  "example_tools code =
     \<lparr>tool_os = sample_os,
      which_ffmpeg = Some ''/usr/bin/ffmpeg'',
      imageio_ffmpeg = None,
      run_process = (\<lambda>cmd w. (Inr \<lparr>returncode = code, stderr = ''no codec''\<rparr>, w)),
      moviepy_installed = True,
      write_audiofile = (\<lambda>video_path audio_path w. (Inr (), w)),
      whisper_installed = True,
      load_audio_as_numpy = (\<lambda>wav_path w. (Inr [], w)),
      whisper_transcribe =
        (\<lambda>model_size audio_array language w.
           (Inr \<lparr>res_text = '' hello '', res_language = Some ''en'', res_segments = None\<rparr>, w))\<rparr>"

definition no_ffmpeg_tools :: "(sample_world, nat list, nat) tools" where
  "no_ffmpeg_tools =
     \<lparr>tool_os = sample_os,
      which_ffmpeg = None,
      imageio_ffmpeg = None,
      run_process = (\<lambda>cmd w. (Inl ''No such file or directory: ffmpeg'', w)),
      moviepy_installed = True,
      write_audiofile = (\<lambda>video_path audio_path w. (Inr (), w)),
      whisper_installed = True,
      load_audio_as_numpy = (\<lambda>wav_path w. (Inr [], w)),
      whisper_transcribe =
        (\<lambda>model_size audio_array language w.
           (Inr \<lparr>res_text = '' hello '', res_language = Some ''en'', res_segments = None\<rparr>, w))\<rparr>"

definition broken_bundle_tools :: "(sample_world, nat list, nat) tools" where
  "broken_bundle_tools = no_ffmpeg_tools\<lparr>imageio_ffmpeg := Some (Inl ''no binary'')\<rparr>"

section \<open>Properties of the text operations\<close>

text \<open>
  The definitions above are the model; what follows is proved about them. The claims are
  numbered as in the list of claims of the specification.
\<close>

lemma strip_all_space: "\<forall>c\<in>set d. is_space c \<Longrightarrow> strip d = []"
proof -
  assume "\<forall>c\<in>set d. is_space c"
  then have d: "dropWhile is_space d = []"
    by simp
  show ?thesis
    unfolding strip_def d by simp
qed

section \<open>Properties of the conversation adapters\<close>

lemma sse_loop_tokens:
  "only_tokens (map (decode_line loads) pre) \<Longrightarrow>
   sse_loop loads (pre @ rest) acc =
     sse_loop loads rest (acc @ tokens_of (map (decode_line loads) pre))"
proof (induction pre arbitrary: acc)
  case Nil
  then show ?case by simp
next
  case (Cons l pre)
  then show ?case by (cases "decode_line loads l") simp_all
qed

lemma sse_loop_complete:
  assumes "only_tokens (map (decode_line loads) pre)"
    and "decode_line loads l = Complete d"
  shows "sse_loop loads (pre @ l # post) acc = Inr (strip d)"
  using assms by (simp add: sse_loop_tokens)

lemma sse_loop_only_tokens:
  assumes "only_tokens (map (decode_line loads) lines)"
  shows "sse_loop loads lines acc = Inr (acc @ tokens_of (map (decode_line loads) lines))"
  using sse_loop_tokens [OF assms, of "[]" acc] by simp

lemma length_add_user_turn: "length (add_user_turn user_text h) \<le> 20"
  by (simp add: add_user_turn_def Let_def)

lemma add_user_turn_drop:
  "add_user_turn user_text h = drop (Suc (length h) - 20) (h @ [\<lparr>role = User, content = user_text\<rparr>])"
  by (simp add: add_user_turn_def Let_def)

lemma groq_ask_history:
  "fst (fst (groq_ask create user_text h)) =
     add_user_turn user_text h @
       (case snd (groq_ask create user_text h) of
          Inl e \<Rightarrow> [] | Inr reply \<Rightarrow> [\<lparr>role = Assistant, content = reply\<rparr>])"
  by (simp add: groq_ask_def Let_def split: sum.splits list.splits)

lemma monei_ask_history:
  "fst (fst (monei_ask loads post user_text h)) =
     add_user_turn user_text h @
       (case snd (monei_ask loads post user_text h) of
          Inl e \<Rightarrow> [] | Inr reply \<Rightarrow> [\<lparr>role = Assistant, content = reply\<rparr>])"
  by (simp add: monei_ask_def Let_def split: sum.splits)

lemma groq_ask_request:
  "snd (fst (groq_ask create user_text h)) =
     ChatCompletion (\<lparr>role = System, content = SYSTEM_PROMPT\<rparr> # add_user_turn user_text h)"
  by (simp add: groq_ask_def Let_def split: sum.splits list.splits)

lemma monei_ask_request:
  "snd (fst (monei_ask loads post user_text h)) = StreamMessage user_text"
  by (simp add: monei_ask_def Let_def split: sum.splits)

lemma ask_history:
  "fst (fst (ask c h)) =
     add_user_turn (user_text_of c) h @
       (case snd (ask c h) of Inl e \<Rightarrow> [] | Inr reply \<Rightarrow> [\<lparr>role = Assistant, content = reply\<rparr>])"
  by (cases c) (simp_all add: groq_ask_history monei_ask_history)

lemma length_ask: "length (fst (fst (ask c h))) \<le> 21"
proof -
  have "length (fst (fst (ask c h))) \<le> length (add_user_turn (user_text_of c) h) + 1"
    by (subst ask_history) (simp split: sum.splits)
  with length_add_user_turn [of "user_text_of c" h] show ?thesis
    by linarith
qed

lemma ask_all_snoc: "ask_all (cs @ [c]) h = fst (fst (ask c (ask_all cs h)))"
  by (induction cs arbitrary: h) simp_all

lemma decode_examples:
  "decode_line example_loads [] = Ignored"
  "decode_line example_loads token_Hel = Token ''Hel''"
  "decode_line example_loads token_lo = Token ''lo''"
  "decode_line example_loads token_empty = Token []"
  "decode_line example_loads complete_Hello = Complete ''Hello!''"
  "decode_line example_loads complete_padded = Complete '' Hello! ''"
  "decode_line example_loads complete_blank = Complete ''  ''"
  "decode_line example_loads complete_nbsp = Complete [CHR 0xA0]"
  by (simp_all add: decode_line_def example_loads_def startswith_def get_data_def
      token_Hel_def token_lo_def token_empty_def complete_Hello_def complete_padded_def
      complete_blank_def complete_nbsp_def)

lemma strip_examples:
  "strip ''Hello!'' = ''Hello!''"
  "strip '' Hello! '' = ''Hello!''"
  "strip ''  '' = []"
  "strip [CHR 0xA0] = []"
  by (simp_all add: strip_def is_space_def)

subsection \<open>C1: the history window\<close>

text \<open>
  C1, as stated: after every \<open>ask\<close> call the history has at most 20 entries. The cap is
  applied when the user turn is appended, before the request; the assistant turn is
  appended afterwards. With a history of 20 entries a call of either provider leaves 21.
\<close>

theorem history_cap_20_counterexample:
  "\<not> length (fst (fst (groq_ask reply_ok ''hi'' twenty_turns))) \<le> 20
   \<and> \<not> length (fst (fst (monei_ask example_loads stream_hello ''hi'' twenty_turns))) \<le> 20"
  by (simp add: groq_ask_def monei_ask_def add_user_turn_def reply_ok_def stream_hello_def
      twenty_turns_def parse_sse_def decode_examples strip_examples Let_def)

text \<open>
  C1, amended: for every initial history and every non-empty sequence of \<open>ask\<close> calls on
  either provider, the history has at most 21 entries after the last call. Each call
  replaces the history by the last 20 entries of the old history extended with the user
  turn (the oldest entries are the ones dropped), followed by the assistant turn when the
  call returns a reply. The direct-completion request carries the system instruction
  followed by exactly these last 20 entries, the user turn the last of them; the streaming
  request carries the user text and nothing of the history.
\<close>

theorem history_window:
  "length (ask_all (cs @ [c]) h) \<le> 21
   \<and> fst (fst (ask c h)) =
       drop (Suc (length h) - 20) (h @ [\<lparr>role = User, content = user_text_of c\<rparr>]) @
         (case snd (ask c h) of
            Inl e \<Rightarrow> []
          | Inr reply \<Rightarrow> [\<lparr>role = Assistant, content = reply\<rparr>])
   \<and> snd (fst (groq_ask create user_text h)) =
       ChatCompletion
         (\<lparr>role = System, content = SYSTEM_PROMPT\<rparr>
          # drop (Suc (length h) - 20) (h @ [\<lparr>role = User, content = user_text\<rparr>]))
   \<and> length (drop (Suc (length h) - 20) (h @ [\<lparr>role = User, content = user_text\<rparr>])) \<le> 20
   \<and> snd (fst (monei_ask loads post user_text h)) = StreamMessage user_text"
proof -
  have "length (ask_all (cs @ [c]) h) \<le> 21"
    by (simp add: ask_all_snoc length_ask)
  moreover have "fst (fst (ask c h)) =
       drop (Suc (length h) - 20) (h @ [\<lparr>role = User, content = user_text_of c\<rparr>]) @
         (case snd (ask c h) of
            Inl e \<Rightarrow> []
          | Inr reply \<Rightarrow> [\<lparr>role = Assistant, content = reply\<rparr>])"
    by (subst ask_history) (simp only: add_user_turn_drop)
  moreover have "snd (fst (groq_ask create user_text h)) =
       ChatCompletion
         (\<lparr>role = System, content = SYSTEM_PROMPT\<rparr>
          # drop (Suc (length h) - 20) (h @ [\<lparr>role = User, content = user_text\<rparr>]))"
    by (simp only: groq_ask_request add_user_turn_drop)
  moreover have
    "length (drop (Suc (length h) - 20) (h @ [\<lparr>role = User, content = user_text\<rparr>])) \<le> 20"
    by simp
  moreover have "snd (fst (monei_ask loads post user_text h)) = StreamMessage user_text"
    by (rule monei_ask_request)
  ultimately show ?thesis by blast
qed

subsection \<open>C2: what the decoder returns\<close>

text \<open>
  C2, as stated: the decoder returns the payload of the first complete event, and the
  concatenation of the token payloads when there is no complete event. The payload of the
  complete event is returned without its surrounding whitespace, and a stream whose token
  payloads are all empty is an error, not the empty concatenation.
\<close>

theorem parse_sse_payload_counterexample:
  "decode_line example_loads complete_padded = Complete '' Hello! ''
   \<and> parse_sse example_loads [complete_padded] \<noteq> Inr '' Hello! ''
   \<and> decode_line example_loads token_empty = Token []
   \<and> parse_sse example_loads [token_empty] \<noteq> Inr []"
  by (simp add: parse_sse_def decode_examples strip_examples)

text \<open>
  C2, amended: when the lines before the first complete event are token events and ignored
  lines, the decoder returns the payload of that complete event with the surrounding
  whitespace removed, whatever the token events before it and the lines after it are; when
  the whole stream consists of token events and ignored lines, it returns the
  concatenation of the token payloads in order. In both cases an empty result is the error
  EmptyResponse instead.
\<close>

theorem parse_sse_result:
  "(only_tokens (map (decode_line loads) pre) \<and> decode_line loads l = Complete d \<longrightarrow>
      parse_sse loads (pre @ l # post) =
        (if strip d = [] then Inl EmptyResponse else Inr (strip d)))
   \<and> (only_tokens (map (decode_line loads) lines) \<longrightarrow>
      parse_sse loads lines =
        (if tokens_of (map (decode_line loads) lines) = [] then Inl EmptyResponse
         else Inr (tokens_of (map (decode_line loads) lines))))"
  by (simp add: parse_sse_def sse_loop_complete sse_loop_only_tokens)

theorem parse_sse_result_witness:
  "only_tokens (map (decode_line example_loads) [token_Hel, [], token_lo])
   \<and> decode_line example_loads complete_Hello = Complete ''Hello!''
   \<and> parse_sse example_loads ([token_Hel, [], token_lo] @ complete_Hello # [token_lo]) = Inr ''Hello!''
   \<and> parse_sse example_loads [token_Hel, [], token_lo] = Inr ''Hello''"
proof -
  have a: "only_tokens (map (decode_line example_loads) [token_Hel, [], token_lo])"
    by (simp add: decode_examples)
  have b: "decode_line example_loads complete_Hello = Complete ''Hello!''"
    by (simp add: decode_examples)
  have c: "tokens_of (map (decode_line example_loads) [token_Hel, [], token_lo]) = ''Hello''"
    by (simp add: decode_examples)
  note inst = parse_sse_result [of example_loads "[token_Hel, [], token_lo]" complete_Hello
      "''Hello!''" "[token_lo]" "[token_Hel, [], token_lo]"]
  from inst a b have
    "parse_sse example_loads ([token_Hel, [], token_lo] @ complete_Hello # [token_lo]) = Inr ''Hello!''"
    by (simp add: strip_examples)
  moreover from inst a c have "parse_sse example_loads [token_Hel, [], token_lo] = Inr ''Hello''"
    by simp
  ultimately show ?thesis using a b by blast
qed

subsection \<open>C3: no empty reply\<close>

text \<open>
  C3: the decoder fails with EmptyResponse on the empty stream and on every stream whose
  read loop ends with an empty buffer; it never returns the empty string, and neither does
  \<open>ask\<close> of the streaming provider.
\<close>

theorem parse_sse_never_empty:
  "parse_sse loads [] = Inl EmptyResponse
   \<and> (sse_loop loads lines [] = Inr [] \<longrightarrow> parse_sse loads lines = Inl EmptyResponse)
   \<and> parse_sse loads lines \<noteq> Inr []
   \<and> snd (monei_ask loads post user_text h) \<noteq> Inr []"
proof -
  have a: "parse_sse loads ls \<noteq> Inr []" for ls
    by (simp add: parse_sse_def split: sum.splits)
  have "snd (monei_ask loads post user_text h) \<noteq> Inr []"
    using a by (auto simp: monei_ask_def Let_def split: sum.splits)
  then show ?thesis
    using a by (simp add: parse_sse_def)
qed

theorem parse_sse_never_empty_witness:
  "sse_loop example_loads [[], token_empty, '': keep-alive''] [] = Inr []
   \<and> parse_sse example_loads [[], token_empty, '': keep-alive''] = Inl EmptyResponse"
proof -
  have i: "decode_line example_loads '': keep-alive'' = Ignored"
    by (simp add: decode_line_def startswith_def)
  have a: "sse_loop example_loads [[], token_empty, '': keep-alive''] [] = Inr []"
    by (simp add: decode_examples i)
  from parse_sse_never_empty [of example_loads "[[], token_empty, '': keep-alive'']"] a
  show ?thesis by blast
qed

subsection \<open>C10: an empty complete event\<close>

text \<open>
  C10: a complete event whose payload is empty or consists of whitespace makes the call
  fail with EmptyResponse, whatever text the token events before it have contributed; any
  other complete event is returned with its surrounding whitespace removed.
\<close>

theorem complete_event_blank:
  assumes "only_tokens (map (decode_line loads) pre)"
    and "decode_line loads l = Complete d"
  shows "((\<forall>c\<in>set d. is_space c) \<longrightarrow> parse_sse loads (pre @ l # post) = Inl EmptyResponse)
       \<and> (strip d \<noteq> [] \<longrightarrow> parse_sse loads (pre @ l # post) = Inr (strip d))
       \<and> sse_loop loads (pre @ l # post) [] = Inr (strip d)"
  using assms by (simp add: parse_sse_def sse_loop_complete strip_all_space)

theorem complete_event_blank_witness:
  "tokens_of (map (decode_line example_loads) [token_Hel]) = ''Hel''
   \<and> decode_line example_loads complete_blank = Complete ''  ''
   \<and> list_all is_space ''  ''
   \<and> parse_sse example_loads ([token_Hel] @ complete_blank # []) = Inl EmptyResponse
   \<and> decode_line example_loads complete_nbsp = Complete [CHR 0xA0]
   \<and> list_all is_space [CHR 0xA0]
   \<and> parse_sse example_loads ([token_Hel] @ complete_nbsp # []) = Inl EmptyResponse
   \<and> decode_line example_loads complete_padded = Complete '' Hello! ''
   \<and> strip '' Hello! '' = ''Hello!''
   \<and> parse_sse example_loads ([token_Hel] @ complete_padded # []) = Inr ''Hello!''"
proof -
  have a: "only_tokens (map (decode_line example_loads) [token_Hel])"
    by (simp add: decode_examples)
  have t: "tokens_of (map (decode_line example_loads) [token_Hel]) = ''Hel''"
    by (simp add: decode_examples)
  have b: "decode_line example_loads complete_blank = Complete ''  ''"
    by (simp add: decode_examples)
  have b': "decode_line example_loads complete_padded = Complete '' Hello! ''"
    by (simp add: decode_examples)
  have s: "\<forall>c\<in>set ''  ''. is_space c"
    by (simp add: is_space_def)
  have s': "strip '' Hello! '' = ''Hello!''"
    by (simp add: strip_examples)
  from complete_event_blank [OF a b, of "[]"] s
  have 1: "parse_sse example_loads ([token_Hel] @ complete_blank # []) = Inl EmptyResponse"
    by blast
  from complete_event_blank [OF a b', of "[]"] s'
  have 2: "parse_sse example_loads ([token_Hel] @ complete_padded # []) = Inr ''Hello!''"
    by simp
  have s'': "list_all is_space ''  ''"
    by (simp add: is_space_def)
  have n: "decode_line example_loads complete_nbsp = Complete [CHR 0xA0]"
    by (simp add: decode_examples)
  have ns: "\<forall>c\<in>set [CHR 0xA0]. is_space c" and ns': "list_all is_space [CHR 0xA0]"
    by (simp_all add: is_space_def)
  from complete_event_blank [OF a n, of "[]"] ns
  have 3: "parse_sse example_loads ([token_Hel] @ complete_nbsp # []) = Inl EmptyResponse"
    by blast
  from t b s'' 1 n ns' 3 b' s' 2 show ?thesis by blast
qed

section \<open>Properties of the speech synthesis adapter\<close>

lemma ascii_lower_to_lower: "ascii_lower d \<Longrightarrow> to_lower d = d"
  by (simp add: ascii_lower_def to_lower_def Let_def)

lemma to_lower_ascii_lower:
  assumes "to_lower c = d" and "ascii_lower d"
  shows "is_cased c"
proof (cases "(65 \<le> (of_char c :: nat) \<and> (of_char c :: nat) \<le> 90)
    \<or> (192 \<le> (of_char c :: nat) \<and> (of_char c :: nat) \<le> 214)
    \<or> (216 \<le> (of_char c :: nat) \<and> (of_char c :: nat) \<le> 222)")
  case True
  then show ?thesis
    unfolding is_cased_def Let_def by linarith
next
  case False
  then have "to_lower c = c"
    unfolding to_lower_def Let_def by (simp only: if_False)
  with assms have "97 \<le> (of_char c :: nat) \<and> (of_char c :: nat) \<le> 122"
    by (simp add: ascii_lower_def Let_def)
  then show ?thesis
    unfolding is_cased_def Let_def by linarith
qed

lemma title_from_True_cased:
  "list_all is_cased cs \<Longrightarrow> title_from True cs = map (\<lambda>c. of_char (to_lower c)) cs"
  by (induction cs) simp_all

lemma lower_eq_letters:
  "map to_lower cs = map to_lower ds \<Longrightarrow> list_all ascii_lower ds \<Longrightarrow>
   list_all is_cased cs \<and> map to_lower cs = ds"
proof (induction cs arbitrary: ds)
  case Nil
  then show ?case by simp
next
  case (Cons c cs)
  then obtain d ds' where ds: "ds = d # ds'" by (cases ds) auto
  from Cons.prems ds have cd: "to_lower c = to_lower d" and rest: "map to_lower cs = map to_lower ds'"
    and d: "ascii_lower d" and ds': "list_all ascii_lower ds'"
    by simp_all
  from d have "to_lower d = d" by (rule ascii_lower_to_lower)
  with cd have c: "to_lower c = d" by simp
  from c d have "is_cased c" by (rule to_lower_ascii_lower)
  with Cons.IH [OF rest ds'] c ds show ?case by simp
qed

lemma title_char_ascii_upper:
  assumes d: "ascii_upper d" and cd: "to_lower c = to_lower d"
  shows "title_char c = [of_char d] \<and> is_cased c"
proof -
  define n where "n = (of_char d :: nat)"
  define m where "m = (of_char c :: nat)"
  from d have n: "65 \<le> n" "n \<le> 90" by (simp_all add: ascii_upper_def n_def Let_def)
  then have ld: "to_lower d = char_of (n + 32)"
    by (simp add: to_lower_def n_def)
  have "of_char (to_lower c) = (of_char (to_lower d) :: nat)" by (simp only: cd)
  with ld n have lc: "(of_char (to_lower c) :: nat) = n + 32" by simp
  have m256: "m < 256" by (simp add: m_def)
  have mn: "m = n \<or> m = n + 32"
  proof (cases "(65 \<le> m \<and> m \<le> 90) \<or> (192 \<le> m \<and> m \<le> 214) \<or> (216 \<le> m \<and> m \<le> 222)")
    case True
    then have "to_lower c = char_of (m + 32)"
      unfolding to_lower_def Let_def m_def by (simp only: if_True)
    moreover from True have "(m + 32) mod 256 = m + 32" by auto
    ultimately have "(of_char (to_lower c) :: nat) = m + 32" by simp
    with lc show ?thesis by simp
  next
    case False
    then have "to_lower c = c"
      unfolding to_lower_def Let_def m_def by (simp only: if_False)
    with lc show ?thesis by (simp add: m_def)
  qed
  have t: "title_char c = [m - 32]" if "97 \<le> m" "m \<le> 122"
    using that unfolding title_char_def Let_def m_def by simp
  have t': "title_char c = [m]" if "65 \<le> m" "m \<le> 90"
    using that unfolding title_char_def Let_def m_def by simp
  have cased: "is_cased c" if "(65 \<le> m \<and> m \<le> 90) \<or> (97 \<le> m \<and> m \<le> 122)"
    using that unfolding is_cased_def Let_def m_def by linarith
  from mn show ?thesis
  proof
    assume "m = n"
    with n t' [unfolded \<open>m = n\<close>] cased show ?thesis by (simp add: n_def)
  next
    assume e: "m = n + 32"
    with n have "97 \<le> m" "m \<le> 122" by simp_all
    with t cased e show ?thesis by (simp add: n_def)
  qed
qed

lemma title_capitalized:
  assumes v: "capitalized v" and eq: "lower t = lower v"
  shows "title t = points v"
proof -
  from v obtain d ds where vd: "v = d # ds" and d: "ascii_upper d"
    and ds: "list_all ascii_lower ds"
    by (cases v) (auto simp: capitalized_def)
  from eq vd obtain c cs where tc: "t = c # cs"
    by (cases t) (auto simp: lower_def)
  from eq vd tc have cd: "to_lower c = to_lower d" and rest: "map to_lower cs = map to_lower ds"
    by (simp_all add: lower_def)
  from lower_eq_letters [OF rest ds]
  have letters: "list_all is_cased cs" and cs: "map to_lower cs = ds"
    by simp_all
  from title_char_ascii_upper [OF d cd]
  have c: "title_char c = [of_char d]" and cc: "is_cased c" by simp_all
  have "map (\<lambda>c. of_char (to_lower c)) cs = (map of_char (map to_lower cs) :: nat list)"
    by (simp add: comp_def)
  with cs have "map (\<lambda>c. of_char (to_lower c)) cs = (map of_char ds :: nat list)"
    by simp
  with c cc letters tc vd show ?thesis
    by (simp add: title_def points_def title_from_True_cased)
qed

lemma voices_capitalized: "v \<in> set list_voice_names \<Longrightarrow> capitalized v"
  by (auto simp: list_voice_names_def YARNGPT_VOICES_def capitalized_def ascii_upper_def
      ascii_lower_def)

lemma synthesize_sent_payload:
  "(k, p) \<in> set (sent (fst (synthesize_speech env_key post text output_path voice response_format api_key)))
   \<Longrightarrow> p = \<lparr>p_text = text, p_voice = title (strip voice), p_response_format = response_format\<rparr>"
  by (auto simp: synthesize_speech_def Let_def split: if_splits sum.splits option.splits)

lemma title_examples:
  "title (strip ''idera'') = points ''Idera''"
  "title (strip ''IDERA'') = points ''Idera''"
  "title (strip '' iDeRa '') = points ''Idera''"
  "title (strip ''Idera'') = points ''Idera''"
  "title (strip idera_padded) = points ''Idera''"
  "lower (strip ''idera'') = lower ''Idera''"
  "lower (strip ''IDERA'') = lower ''Idera''"
  "lower (strip idera_padded) = lower ''Idera''"
  "title (strip ''bob'') = points ''Bob''"
  "title (strip jose) = [74, 111, 115, 233]"
  by code_simp+

lemma points_inj: "(points s = points t) = (s = t)"
  by (auto simp: points_def dest: map_injective [OF _ inj_of_char])

subsection \<open>C4: the length limit of the text\<close>

text \<open>
  C4: \<open>synthesize_speech\<close> fails with TextTooLong exactly when the text has more than 2000
  characters, before anything is sent; and every request it sends carries the text as it
  was given, never a shortened one.
\<close>

theorem text_too_long_iff:
  "(\<exists>n. snd (synthesize_speech env_key post text output_path voice response_format api_key)
          = Inl (TextTooLong n)) = (2000 < length text)
   \<and> (2000 < length text \<longrightarrow>
        synthesize_speech env_key post text output_path voice response_format api_key
          = (\<lparr>sent = [], saved = []\<rparr>, Inl (TextTooLong (length text))))
   \<and> (\<forall>(k, p) \<in> set (sent (fst (synthesize_speech env_key post text output_path voice
                                     response_format api_key))). p_text p = text)"
proof -
  have "(\<exists>n. snd (synthesize_speech env_key post text output_path voice response_format api_key)
          = Inl (TextTooLong n)) = (2000 < length text)"
    by (auto simp: synthesize_speech_def get_api_key_def Let_def
        split: if_splits sum.splits option.splits)
  moreover have "2000 < length text \<longrightarrow>
        synthesize_speech env_key post text output_path voice response_format api_key
          = (\<lparr>sent = [], saved = []\<rparr>, Inl (TextTooLong (length text)))"
    by (simp add: synthesize_speech_def)
  moreover have "\<forall>(k, p) \<in> set (sent (fst (synthesize_speech env_key post text output_path voice
                                     response_format api_key))). p_text p = text"
    using synthesize_sent_payload [of _ _ env_key post "text" output_path voice response_format api_key]
    by fastforce
  ultimately show ?thesis by blast
qed

theorem text_too_long_iff_witness:
  "length (replicate 2001 CHR ''a'') = 2001
   \<and> synthesize_speech None tts_ok (replicate 2001 CHR ''a'') ''out.mp3'' ''Idera'' ''mp3'' (Some ''sk'')
       = (\<lparr>sent = [], saved = []\<rparr>, Inl (TextTooLong 2001))
   \<and> length (replicate 2000 CHR ''a'') = 2000
   \<and> synthesize_speech None tts_ok (replicate 2000 CHR ''a'') ''out.mp3'' ''Idera'' ''mp3'' (Some ''sk'')
       = (\<lparr>sent = [(''sk'', \<lparr>p_text = replicate 2000 CHR ''a'', p_voice = points ''Idera'',
                              p_response_format = ''mp3''\<rparr>)],
           saved = [(''out.mp3'', ''ID3'')]\<rparr>, Inr ''out.mp3'')"
proof -
  have 1: "synthesize_speech None tts_ok (replicate 2001 CHR ''a'') ''out.mp3'' ''Idera'' ''mp3'' (Some ''sk'')
       = (\<lparr>sent = [], saved = []\<rparr>, Inl (TextTooLong 2001))"
    using text_too_long_iff [of None tts_ok "replicate 2001 CHR ''a''" "''out.mp3''" "''Idera''"
        "''mp3''" "Some ''sk''"]
    by simp
  have 2: "synthesize_speech None tts_ok (replicate 2000 CHR ''a'') ''out.mp3'' ''Idera'' ''mp3'' (Some ''sk'')
       = (\<lparr>sent = [(''sk'', \<lparr>p_text = replicate 2000 CHR ''a'', p_voice = points ''Idera'',
                              p_response_format = ''mp3''\<rparr>)],
           saved = [(''out.mp3'', ''ID3'')]\<rparr>, Inr ''out.mp3'')"
    by (simp add: synthesize_speech_def title_examples YARNGPT_VOICES_def tts_ok_def Let_def)
  from 1 2 show ?thesis by simp
qed

subsection \<open>C5: the voice name\<close>

text \<open>
  C5: for a text within the length limit, \<open>synthesize_speech\<close> brings the voice name to
  its canonical case form (surrounding whitespace removed, first letter in upper case, the
  others in lower case). A name that, once its surrounding whitespace is removed, equals a
  voice of the fixed set up to the case of its letters resolves to that voice: the call
  does not fail with UnknownVoice and every request carries the canonical name. A name
  whose canonical form is not in the set makes the call fail, before anything is sent,
  with UnknownVoice carrying that form and the list of the valid names; and UnknownVoice
  is raised in no other case.
\<close>

theorem voice_validation:
  assumes "length text \<le> 2000"
  shows "(v \<in> set list_voice_names \<and> lower (strip voice) = lower v \<longrightarrow>
            title (strip voice) = points v
            \<and> (\<forall>w ns. snd (synthesize_speech env_key post text output_path voice response_format
                               api_key) \<noteq> Inl (UnknownVoice w ns))
            \<and> (\<forall>(k, p) \<in> set (sent (fst (synthesize_speech env_key post text output_path voice
                                     response_format api_key))). p_voice p = points v))
       \<and> (title (strip voice) \<notin> set (map points list_voice_names) \<longrightarrow>
            synthesize_speech env_key post text output_path voice response_format api_key
              = (\<lparr>sent = [], saved = []\<rparr>,
                 Inl (UnknownVoice (title (strip voice)) list_voice_names)))
       \<and> (\<exists>w ns. snd (synthesize_speech env_key post text output_path voice response_format
                           api_key) = Inl (UnknownVoice w ns))
           = (title (strip voice) \<notin> set (map points list_voice_names))"
proof -
  let ?R = "synthesize_speech env_key post text output_path voice response_format api_key"
  have iff: "(\<exists>w ns. snd ?R = Inl (UnknownVoice w ns))
      = (title (strip voice) \<notin> set (map points list_voice_names))"
    using assms
    by (auto simp: synthesize_speech_def get_api_key_def list_voice_names_def Let_def
        split: if_splits sum.splits option.splits)
  have unknown: "title (strip voice) \<notin> set (map points list_voice_names) \<longrightarrow>
      ?R = (\<lparr>sent = [], saved = []\<rparr>, Inl (UnknownVoice (title (strip voice)) list_voice_names))"
    using assms by (simp add: synthesize_speech_def list_voice_names_def Let_def)
  have known: "title (strip voice) = points v
      \<and> (\<forall>w ns. snd ?R \<noteq> Inl (UnknownVoice w ns))
      \<and> (\<forall>(k, p) \<in> set (sent (fst ?R)). p_voice p = points v)"
    if v: "v \<in> set list_voice_names" and eq: "lower (strip voice) = lower v"
  proof -
    have t: "title (strip voice) = points v"
      using voices_capitalized [OF v] eq by (rule title_capitalized)
    with v iff have "\<forall>w ns. snd ?R \<noteq> Inl (UnknownVoice w ns)"
      by simp
    moreover have "\<forall>(k, p) \<in> set (sent (fst ?R)). p_voice p = points v"
      using synthesize_sent_payload [of _ _ env_key post "text" output_path voice response_format api_key] t
      by fastforce
    ultimately show ?thesis using t by blast
  qed
  from iff unknown known show ?thesis by blast
qed

theorem voice_validation_witness:
  "synthesize_speech None tts_ok ''Hi'' ''out.mp3'' ''idera'' ''mp3'' (Some ''sk'')
     = (\<lparr>sent = [(''sk'', \<lparr>p_text = ''Hi'', p_voice = points ''Idera'', p_response_format = ''mp3''\<rparr>)],
         saved = [(''out.mp3'', ''ID3'')]\<rparr>, Inr ''out.mp3'')
   \<and> title (strip ''idera'') = points ''Idera''
   \<and> title (strip ''IDERA'') = points ''Idera''
   \<and> title (strip idera_padded) = points ''Idera''
   \<and> synthesize_speech None tts_ok ''Hi'' ''out.mp3'' ''bob'' ''mp3'' (Some ''sk'')
     = (\<lparr>sent = [], saved = []\<rparr>, Inl (UnknownVoice (points ''Bob'') list_voice_names))
   \<and> synthesize_speech None tts_ok ''Hi'' ''out.mp3'' jose ''mp3'' (Some ''sk'')
     = (\<lparr>sent = [], saved = []\<rparr>, Inl (UnknownVoice [74, 111, 115, 233] list_voice_names))"
proof -
  have len: "length ''Hi'' \<le> 2000" by simp
  have mem: "''Idera'' \<in> set list_voice_names"
    by (simp add: list_voice_names_def YARNGPT_VOICES_def)
  have nomem: "title (strip ''bob'') \<notin> set (map points list_voice_names)"
    by (simp add: title_examples list_voice_names_def YARNGPT_VOICES_def points_inj)
  have nomem': "title (strip jose) \<notin> set (map points list_voice_names)"
    by (simp add: title_examples list_voice_names_def YARNGPT_VOICES_def points_def)
  have run: "synthesize_speech None tts_ok ''Hi'' ''out.mp3'' ''idera'' ''mp3'' (Some ''sk'')
     = (\<lparr>sent = [(''sk'', \<lparr>p_text = ''Hi'', p_voice = points ''Idera'', p_response_format = ''mp3''\<rparr>)],
         saved = [(''out.mp3'', ''ID3'')]\<rparr>, Inr ''out.mp3'')"
    by (simp add: synthesize_speech_def title_examples YARNGPT_VOICES_def tts_ok_def Let_def)
  from voice_validation [OF len, of "''Idera''" "''idera''"] mem title_examples(6)
  have 1: "title (strip ''idera'') = points ''Idera''" by blast
  from voice_validation [OF len, of "''Idera''" "''IDERA''"] mem title_examples(7)
  have 2: "title (strip ''IDERA'') = points ''Idera''" by blast
  from voice_validation [OF len, of "''Idera''" idera_padded] mem title_examples(8)
  have 3: "title (strip idera_padded) = points ''Idera''" by blast
  from voice_validation [OF len, of _ "''bob''" None tts_ok "''out.mp3''" "''mp3''" "Some ''sk''"] nomem
  have 4: "synthesize_speech None tts_ok ''Hi'' ''out.mp3'' ''bob'' ''mp3'' (Some ''sk'')
     = (\<lparr>sent = [], saved = []\<rparr>, Inl (UnknownVoice (points ''Bob'') list_voice_names))"
    by (simp add: title_examples)
  from voice_validation [OF len, of _ jose None tts_ok "''out.mp3''" "''mp3''"
      "Some ''sk''"] nomem'
  have 5: "synthesize_speech None tts_ok ''Hi'' ''out.mp3'' jose ''mp3'' (Some ''sk'')
     = (\<lparr>sent = [], saved = []\<rparr>, Inl (UnknownVoice [74, 111, 115, 233] list_voice_names))"
    by (simp add: title_examples)
  from run 1 2 3 4 5 show ?thesis by blast
qed

section \<open>Properties of paths\<close>








section \<open>Properties of the media collector\<close>








lemma sample_files_facts:
  "path_exists sample_os ''media/talk.MP3'' sample_files"
  "lower (path_suffix (Path ''media/talk.MP3'')) \<in> set (AUDIO_EXTENSIONS @ VIDEO_EXTENSIONS)"
  "is_audio ''media/talk.MP3''"
  "path_str (Path ''out'') = ''out''"
  "path_str (Path ''media'') = ''media''"
  "path_str (destination ''out'' ''media/talk.MP3'') = ''out/talk.MP3''"
  "path_str (destination ''media'' ''media/talk.MP3'') = ''media/talk.MP3''"
  "path_exists sample_os ''media/notes.txt'' sample_files"
  "lower (path_suffix (Path ''media/notes.txt'')) \<notin> set (AUDIO_EXTENSIONS @ VIDEO_EXTENSIONS)"
  "path_suffix (Path ''media/notes.txt'') = ''.txt''"
  "\<not> path_exists sample_os ''media/nope.mp3'' sample_files"
  "read_bytes sample_os ''media/talk.MP3'' sample_files = Some ''ID3 talk''"
  "mkdir_parents sample_os ''out'' sample_files = (Inr (), sample_files)"
  "shutil_copy2 sample_os ''media/talk.MP3'' ''out/talk.MP3'' sample_files
     = (Inr ''out/talk.MP3'', (''out/talk.MP3'', ''ID3 talk'') # sample_files)"
  "mkdir_parents sample_os ''media'' sample_files = (Inr (), sample_files)"
  "shutil_copy2 sample_os ''media/talk.MP3'' ''media/talk.MP3'' sample_files
     = (Inl SameFileError, sample_files)"
  "path_exists blocked_os ''media/talk.MP3'' sample_files"
  "mkdir_parents blocked_os ''out'' sample_files = (Inl FileExistsError, sample_files)"
  by code_simp+

subsection \<open>C6: collecting a local file\<close>




section \<open>Properties of the processor\<close>

lemma audio_not_video: "is_audio filepath \<Longrightarrow> \<not> is_video filepath"
  by (auto simp: is_audio_def is_video_def AUDIO_EXTENSIONS_def VIDEO_EXTENSIONS_def)

lemma process_file_missing:
  assumes "\<not> path_exists (tool_os T) fp w"
  shows "\<exists>e. process_file T w fp output_dir model_size language = (w, Inl e)"
  using assms
  by (simp add: process_file_def transcribe_audio_def extract_audio_from_video_def Let_def)

lemma process_file_missing_audio:
  assumes "\<not> path_exists (tool_os T) fp w" and "whisper_installed T" and "is_audio fp"
  shows "process_file T w fp output_dir model_size language = (w, Inl (FileNotFound fp))"
  using assms audio_not_video [of fp]
  by (simp add: process_file_def transcribe_audio_def Let_def)

lemma process_batch_Cons:
  "process_batch T w (fp # fps) output_dir model_size language =
     (fst (process_batch T (fst (process_file T w fp output_dir model_size language)) fps
             output_dir model_size language),
      (case snd (process_file T w fp output_dir model_size language) of
         Inr result \<Rightarrow> Transcribed result | Inl e \<Rightarrow> Failed fp e)
      # snd (process_batch T (fst (process_file T w fp output_dir model_size language)) fps
               output_dir model_size language))"
  by (simp split: prod.splits)

lemma process_batch_single:
  "process_batch T w [fp] output_dir model_size language =
     (fst (process_file T w fp output_dir model_size language),
      [case snd (process_file T w fp output_dir model_size language) of
         Inr result \<Rightarrow> Transcribed result | Inl e \<Rightarrow> Failed fp e])"
  by (simp add: process_batch_Cons del: process_batch.simps(2))

lemma process_batch_length:
  "length (snd (process_batch T w fps output_dir model_size language)) = length fps"
  by (induction fps arbitrary: w) (simp_all add: process_batch_Cons del: process_batch.simps(2))

lemma process_batch_append:
  "snd (process_batch T w (fps @ rest) output_dir model_size language) =
     snd (process_batch T w fps output_dir model_size language) @
     snd (process_batch T (fst (process_batch T w fps output_dir model_size language)) rest
            output_dir model_size language)"
  by (induction fps arbitrary: w) (simp_all add: process_batch_Cons del: process_batch.simps(2))

lemma process_batch_nth:
  "i < length fps \<Longrightarrow>
   (\<exists>t. snd (process_batch T w fps output_dir model_size language) ! i = Transcribed t)
   \<or> (\<exists>e. snd (process_batch T w fps output_dir model_size language) ! i = Failed (fps ! i) e)"
proof (induction fps arbitrary: w i)
  case Nil
  then show ?case by simp
next
  case (Cons fp fps)
  show ?case
  proof (cases i)
    case 0
    then show ?thesis
      by (cases "snd (process_file T w fp output_dir model_size language)")
        (simp_all add: process_batch_Cons del: process_batch.simps(2))
  next
    case (Suc j)
    with Cons.prems have "j < length fps" by simp
    from Cons.IH [OF this, of "fst (process_file T w fp output_dir model_size language)"] Suc
    show ?thesis
      by (simp add: process_batch_Cons del: process_batch.simps(2))
  qed
qed

subsection \<open>C9: falling back to the original file\<close>

text \<open>
  C9, as stated: when the conversion tool fails, \<open>_ensure_wav\<close> returns the original path
  instead of failing the request. When no conversion tool is installed, \<open>_get_ffmpeg_path\<close>
  answers with the bare name \<open>ffmpeg\<close>, \<open>subprocess.run\<close> cannot start it and raises, and
  nothing catches the exception: \<open>_ensure_wav\<close> and the transcription of the file fail.
\<close>

theorem ensure_wav_raises_counterexample:
  "\<not> endswith (lower ''media/talk.MP3'') ''.wav''
   \<and> path_exists (tool_os no_ffmpeg_tools) ''media/talk.MP3'' sample_files
   \<and> get_ffmpeg_path no_ffmpeg_tools = Inr ''ffmpeg''
   \<and> fst (run_process no_ffmpeg_tools (ffmpeg_command ''ffmpeg'' ''media/talk.MP3'') sample_files)
       = Inl ''No such file or directory: ffmpeg''
   \<and> snd (snd (ensure_wav no_ffmpeg_tools sample_files ''media/talk.MP3''))
       = Inl (BackendError ''No such file or directory: ffmpeg'')
   \<and> snd (snd (ensure_wav no_ffmpeg_tools sample_files ''media/talk.MP3''))
       \<noteq> Inr ''media/talk.MP3''
   \<and> snd (transcribe_audio no_ffmpeg_tools sample_files ''media/talk.MP3'' ''base'' None)
       = Inl (BackendError ''No such file or directory: ffmpeg'')"
  by code_simp

text \<open>
  C9, amended: a path that ends in \<open>.wav\<close> (in any case) is returned as it is, and no
  command is run. For any other path \<open>_ensure_wav\<close> looks for the conversion tool and, when
  that lookup raises, fails with its exception without running anything. Otherwise it runs
  the conversion tool once, asking for a 16 kHz, one-channel WAV file. When the tool
  cannot be started, \<open>_ensure_wav\<close> fails with the exception of \<open>subprocess.run\<close>; when the
  tool exits with a non-zero code it prints a warning and returns the original path; and
  when the tool exits with zero it returns the path of the converted file.
\<close>

theorem ensure_wav_fallback:
  "(endswith (lower audio_path) ''.wav'' \<longrightarrow>
      ensure_wav T w audio_path = (w, \<lparr>commands = [], printed = []\<rparr>, Inr audio_path))
   \<and> (\<not> endswith (lower audio_path) ''.wav'' \<and> get_ffmpeg_path T = Inl e \<longrightarrow>
      ensure_wav T w audio_path = (w, \<lparr>commands = [], printed = []\<rparr>, Inl e))
   \<and> (\<not> endswith (lower audio_path) ''.wav'' \<and> get_ffmpeg_path T = Inr ffmpeg_path \<longrightarrow>
        commands (fst (snd (ensure_wav T w audio_path))) = [ffmpeg_command ffmpeg_path audio_path]
        \<and> ffmpeg_command ffmpeg_path audio_path =
            [ffmpeg_path, ''-y'', ''-i'', audio_path, ''-ar'', ''16000'', ''-ac'', ''1'',
             ''-f'', ''wav'', converted_path audio_path]
        \<and> (run_process T (ffmpeg_command ffmpeg_path audio_path) w = (Inl m, w') \<longrightarrow>
             ensure_wav T w audio_path =
               (w', \<lparr>commands = [ffmpeg_command ffmpeg_path audio_path],
                      printed = [converting_line audio_path ffmpeg_path]\<rparr>,
                Inl (BackendError m)))
        \<and> (run_process T (ffmpeg_command ffmpeg_path audio_path) w = (Inr result, w')
            \<and> returncode result \<noteq> 0 \<longrightarrow>
             ensure_wav T w audio_path =
               (w', \<lparr>commands = [ffmpeg_command ffmpeg_path audio_path],
                      printed = [converting_line audio_path ffmpeg_path, warning_line result]\<rparr>,
                Inr audio_path))
        \<and> (run_process T (ffmpeg_command ffmpeg_path audio_path) w = (Inr result, w')
            \<and> returncode result = 0 \<longrightarrow>
             ensure_wav T w audio_path =
               (w', \<lparr>commands = [ffmpeg_command ffmpeg_path audio_path],
                      printed = [converting_line audio_path ffmpeg_path]\<rparr>,
                Inr (converted_path audio_path))))"
proof -
  have cmds: "commands (fst (snd (ensure_wav T w audio_path)))
      = [ffmpeg_command ffmpeg_path audio_path]"
    if "\<not> endswith (lower audio_path) ''.wav''" and "get_ffmpeg_path T = Inr ffmpeg_path"
    using that by (simp add: ensure_wav_def Let_def split: prod.splits sum.splits)
  have cmd: "ffmpeg_command ffmpeg_path audio_path =
            [ffmpeg_path, ''-y'', ''-i'', audio_path, ''-ar'', ''16000'', ''-ac'', ''1'',
             ''-f'', ''wav'', converted_path audio_path]"
    by (simp add: ffmpeg_command_def)
  show ?thesis
    using cmds by (simp add: cmd) (simp add: ensure_wav_def Let_def cmd)
qed

theorem ensure_wav_fallback_witness:
  "ensure_wav (example_tools 1) sample_files ''media/talk.MP3'' =
     (sample_files,
      \<lparr>commands = [[''/usr/bin/ffmpeg'', ''-y'', ''-i'', ''media/talk.MP3'', ''-ar'', ''16000'',
                     ''-ac'', ''1'', ''-f'', ''wav'', ''media/talk_converted.wav'']],
        printed = [''  [Converting] media/talk.MP3 -> WAV (via ffmpeg)'',
                   ''  [Warning] ffmpeg conversion failed: no codec'']\<rparr>,
      Inr ''media/talk.MP3'')
   \<and> ensure_wav (example_tools 0) sample_files ''media/talk.MP3'' =
     (sample_files,
      \<lparr>commands = [[''/usr/bin/ffmpeg'', ''-y'', ''-i'', ''media/talk.MP3'', ''-ar'', ''16000'',
                     ''-ac'', ''1'', ''-f'', ''wav'', ''media/talk_converted.wav'']],
        printed = [''  [Converting] media/talk.MP3 -> WAV (via ffmpeg)'']\<rparr>,
      Inr ''media/talk_converted.wav'')
   \<and> ensure_wav (example_tools 1) sample_files ''media/talk.WAV'' =
       (sample_files, \<lparr>commands = [], printed = []\<rparr>, Inr ''media/talk.WAV'')
   \<and> ensure_wav no_ffmpeg_tools sample_files ''media/talk.MP3'' =
     (sample_files,
      \<lparr>commands = [[''ffmpeg'', ''-y'', ''-i'', ''media/talk.MP3'', ''-ar'', ''16000'',
                     ''-ac'', ''1'', ''-f'', ''wav'', ''media/talk_converted.wav'']],
        printed = [''  [Converting] media/talk.MP3 -> WAV (via ffmpeg)'']\<rparr>,
      Inl (BackendError ''No such file or directory: ffmpeg''))
   \<and> ensure_wav broken_bundle_tools sample_files ''media/talk.MP3'' =
       (sample_files, \<lparr>commands = [], printed = []\<rparr>, Inl (BackendError ''no binary''))"
proof -
  have wav: "endswith (lower ''media/talk.WAV'') ''.wav''"
    and nowav: "\<not> endswith (lower ''media/talk.MP3'') ''.wav''"
    by code_simp+
  have tool: "get_ffmpeg_path (example_tools c) = Inr ''/usr/bin/ffmpeg''" for c
    by (simp add: get_ffmpeg_path_def example_tools_def)
  have run: "run_process (example_tools c) (ffmpeg_command ''/usr/bin/ffmpeg'' ''media/talk.MP3'')
               sample_files = (Inr \<lparr>returncode = c, stderr = ''no codec''\<rparr>, sample_files)" for c
    by (simp add: example_tools_def)
  have tool': "get_ffmpeg_path no_ffmpeg_tools = Inr ''ffmpeg''"
    by (simp add: get_ffmpeg_path_def no_ffmpeg_tools_def)
  have run': "run_process no_ffmpeg_tools (ffmpeg_command ''ffmpeg'' ''media/talk.MP3'')
               sample_files = (Inl ''No such file or directory: ffmpeg'', sample_files)"
    by (simp add: no_ffmpeg_tools_def)
  have tool'': "get_ffmpeg_path broken_bundle_tools = Inl (BackendError ''no binary'')"
    by (simp add: get_ffmpeg_path_def broken_bundle_tools_def no_ffmpeg_tools_def)
  have conv: "converted_path ''media/talk.MP3'' = ''media/talk_converted.wav''"
    by code_simp
  have line: "converting_line ''media/talk.MP3'' ''/usr/bin/ffmpeg''
                = ''  [Converting] media/talk.MP3 -> WAV (via ffmpeg)''"
    "converting_line ''media/talk.MP3'' ''ffmpeg''
                = ''  [Converting] media/talk.MP3 -> WAV (via ffmpeg)''"
    by code_simp+
  have warn: "warning_line \<lparr>returncode = 1, stderr = ''no codec''\<rparr>
                = ''  [Warning] ffmpeg conversion failed: no codec''"
    by (simp add: warning_line_def)
  from ensure_wav_fallback [where audio_path = "''media/talk.MP3''" and T = "example_tools 1"
      and w = sample_files and ffmpeg_path = "''/usr/bin/ffmpeg''"
      and result = "\<lparr>returncode = 1, stderr = ''no codec''\<rparr>" and w' = sample_files]
    nowav tool [of 1] run [of 1]
  have 1: "ensure_wav (example_tools 1) sample_files ''media/talk.MP3'' =
     (sample_files,
      \<lparr>commands = [[''/usr/bin/ffmpeg'', ''-y'', ''-i'', ''media/talk.MP3'', ''-ar'', ''16000'',
                     ''-ac'', ''1'', ''-f'', ''wav'', ''media/talk_converted.wav'']],
        printed = [''  [Converting] media/talk.MP3 -> WAV (via ffmpeg)'',
                   ''  [Warning] ffmpeg conversion failed: no codec'']\<rparr>,
      Inr ''media/talk.MP3'')"
    by (simp add: conv line warn)
  from ensure_wav_fallback [where audio_path = "''media/talk.MP3''" and T = "example_tools 0"
      and w = sample_files and ffmpeg_path = "''/usr/bin/ffmpeg''"
      and result = "\<lparr>returncode = 0, stderr = ''no codec''\<rparr>" and w' = sample_files]
    nowav tool [of 0] run [of 0]
  have 2: "ensure_wav (example_tools 0) sample_files ''media/talk.MP3'' =
     (sample_files,
      \<lparr>commands = [[''/usr/bin/ffmpeg'', ''-y'', ''-i'', ''media/talk.MP3'', ''-ar'', ''16000'',
                     ''-ac'', ''1'', ''-f'', ''wav'', ''media/talk_converted.wav'']],
        printed = [''  [Converting] media/talk.MP3 -> WAV (via ffmpeg)'']\<rparr>,
      Inr ''media/talk_converted.wav'')"
    by (simp add: conv line)
  from ensure_wav_fallback [where audio_path = "''media/talk.WAV''" and T = "example_tools 1"
      and w = sample_files] wav
  have 3: "ensure_wav (example_tools 1) sample_files ''media/talk.WAV'' =
       (sample_files, \<lparr>commands = [], printed = []\<rparr>, Inr ''media/talk.WAV'')"
    by blast
  from ensure_wav_fallback [where audio_path = "''media/talk.MP3''" and T = no_ffmpeg_tools
      and w = sample_files and ffmpeg_path = "''ffmpeg''"
      and m = "''No such file or directory: ffmpeg''" and w' = sample_files]
    nowav tool' run'
  have 4: "ensure_wav no_ffmpeg_tools sample_files ''media/talk.MP3'' =
     (sample_files,
      \<lparr>commands = [[''ffmpeg'', ''-y'', ''-i'', ''media/talk.MP3'', ''-ar'', ''16000'',
                     ''-ac'', ''1'', ''-f'', ''wav'', ''media/talk_converted.wav'']],
        printed = [''  [Converting] media/talk.MP3 -> WAV (via ffmpeg)'']\<rparr>,
      Inl (BackendError ''No such file or directory: ffmpeg''))"
    by (simp add: conv line)
  from ensure_wav_fallback [where audio_path = "''media/talk.MP3''" and T = broken_bundle_tools
      and w = sample_files and e = "BackendError ''no binary''"]
    nowav tool''
  have 5: "ensure_wav broken_bundle_tools sample_files ''media/talk.MP3'' =
       (sample_files, \<lparr>commands = [], printed = []\<rparr>, Inl (BackendError ''no binary''))"
    by blast
  from 1 2 3 4 5 show ?thesis by blast
qed

subsection \<open>C7: a batch survives the failure of an item\<close>

text \<open>
  C7: \<open>process_batch\<close> returns one result for every input path, in the order of the
  inputs: the transcription of the item, or an error record that carries the path of the
  item and the error. The failure of an item does not stop the batch: the results of a
  list followed by another are the results of the first list followed by the results of
  the second, processed in the world the first list left. A path that does not exist
  yields an error record (FileNotFound for a supported audio extension when the
  recognition package is installed).
\<close>

theorem process_batch_isolates_failures:
  "length (snd (process_batch T w fps output_dir model_size language)) = length fps
   \<and> (\<forall>i<length fps.
        (\<exists>t. snd (process_batch T w fps output_dir model_size language) ! i = Transcribed t)
        \<or> (\<exists>e. snd (process_batch T w fps output_dir model_size language) ! i
                 = Failed (fps ! i) e))
   \<and> snd (process_batch T w (fps @ rest) output_dir model_size language) =
       snd (process_batch T w fps output_dir model_size language) @
       snd (process_batch T (fst (process_batch T w fps output_dir model_size language)) rest
              output_dir model_size language)
   \<and> process_batch T w [fp] output_dir model_size language =
       (fst (process_file T w fp output_dir model_size language),
        [case snd (process_file T w fp output_dir model_size language) of
           Inr result \<Rightarrow> Transcribed result | Inl e \<Rightarrow> Failed fp e])
   \<and> (\<not> path_exists (tool_os T) fp w \<longrightarrow>
        (\<exists>e. process_batch T w [fp] output_dir model_size language = (w, [Failed fp e])))
   \<and> (\<not> path_exists (tool_os T) fp w \<and> whisper_installed T \<and> is_audio fp \<longrightarrow>
        process_batch T w [fp] output_dir model_size language = (w, [Failed fp (FileNotFound fp)]))"
proof -
  have "\<exists>e. process_batch T w [fp] output_dir model_size language = (w, [Failed fp e])"
    if "\<not> path_exists (tool_os T) fp w"
    using process_file_missing [OF that, of output_dir model_size language]
    by (auto simp: process_batch_single)
  moreover have "process_batch T w [fp] output_dir model_size language
                   = (w, [Failed fp (FileNotFound fp)])"
    if "\<not> path_exists (tool_os T) fp w \<and> whisper_installed T \<and> is_audio fp"
    using that process_file_missing_audio [of T fp w output_dir model_size language]
    by (simp add: process_batch_single)
  ultimately show ?thesis
    using process_batch_length [of T w fps output_dir model_size language]
      process_batch_nth [of _ fps T w output_dir model_size language]
      process_batch_append [of T w fps rest output_dir model_size language]
      process_batch_single [of T w fp output_dir model_size language]
    by blast
qed

theorem process_batch_isolates_failures_witness:
  "snd (process_batch (example_tools 0) sample_files [''media/talk.MP3'', ''media/nope.mp3'']
          ''output'' ''base'' None)
     = [Transcribed \<lparr>tr_audio_path = ''media/talk.MP3'', tr_text = ''hello'', tr_language = ''en'',
                     tr_segments = []\<rparr>,
        Failed ''media/nope.mp3'' (FileNotFound ''media/nope.mp3'')]
   \<and> snd (process_batch (example_tools 0) sample_files [''media/nope.mp3'', ''media/talk.MP3'']
          ''output'' ''base'' None)
     = [Failed ''media/nope.mp3'' (FileNotFound ''media/nope.mp3''),
        Transcribed \<lparr>tr_audio_path = ''media/talk.MP3'', tr_text = ''hello'', tr_language = ''en'',
                     tr_segments = []\<rparr>]"
proof -
  let ?T = "example_tools 0"
  have os: "tool_os ?T = sample_os" by (simp add: example_tools_def)
  have missing: "\<not> path_exists (tool_os ?T) ''media/nope.mp3'' sample_files"
    by (simp add: os sample_files_facts)
  have inst: "whisper_installed ?T" by (simp add: example_tools_def)
  have audio: "is_audio ''media/nope.mp3''" by code_simp
  have facts: "\<not> is_video ''media/talk.MP3''" "is_audio ''media/talk.MP3''"
    "path_exists sample_os ''media/talk.MP3'' sample_files"
    "\<not> endswith (lower ''media/talk.MP3'') ''.wav''"
    "strip '' hello '' = ''hello''"
    by code_simp+
  have talk: "process_file ?T sample_files ''media/talk.MP3'' ''output'' ''base'' None
      = (sample_files, Inr \<lparr>tr_audio_path = ''media/talk.MP3'', tr_text = ''hello'',
                             tr_language = ''en'', tr_segments = []\<rparr>)"
    by (simp add: process_file_def transcribe_audio_def ensure_wav_def get_ffmpeg_path_def
        example_tools_def facts Let_def)
  note t = process_batch_isolates_failures
  from t [of ?T sample_files _ "''output''" "''base''" None _ "''media/nope.mp3''"] missing inst audio
  have nope: "process_batch ?T sample_files [''media/nope.mp3''] ''output'' ''base'' None
      = (sample_files, [Failed ''media/nope.mp3'' (FileNotFound ''media/nope.mp3'')])"
    by blast
  from t [of ?T sample_files _ "''output''" "''base''" None _ "''media/talk.MP3''"] talk
  have ok: "process_batch ?T sample_files [''media/talk.MP3''] ''output'' ''base'' None
      = (sample_files, [Transcribed \<lparr>tr_audio_path = ''media/talk.MP3'', tr_text = ''hello'',
                                       tr_language = ''en'', tr_segments = []\<rparr>])"
    by simp
  from t [of ?T sample_files "[''media/talk.MP3'']" "''output''" "''base''" None "[''media/nope.mp3'']"]
    ok nope
  have 1: "snd (process_batch ?T sample_files [''media/talk.MP3'', ''media/nope.mp3'']
          ''output'' ''base'' None)
     = [Transcribed \<lparr>tr_audio_path = ''media/talk.MP3'', tr_text = ''hello'', tr_language = ''en'',
                     tr_segments = []\<rparr>,
        Failed ''media/nope.mp3'' (FileNotFound ''media/nope.mp3'')]"
    by simp
  from t [of ?T sample_files "[''media/nope.mp3'']" "''output''" "''base''" None "[''media/talk.MP3'']"]
    ok nope
  have 2: "snd (process_batch ?T sample_files [''media/nope.mp3'', ''media/talk.MP3'']
          ''output'' ''base'' None)
     = [Failed ''media/nope.mp3'' (FileNotFound ''media/nope.mp3''),
        Transcribed \<lparr>tr_audio_path = ''media/talk.MP3'', tr_text = ''hello'', tr_language = ''en'',
                     tr_segments = []\<rparr>]"
    by simp
  from 1 2 show ?thesis by blast
qed

end
